theory Spec2Isabelle
  imports Main "HOL-Library.Word" "HOL-Library.Char_ord" "HOL-Library.List_Lexorder"
begin

unbundle bit_operations_syntax

section \<open>Conventions of the embedding\<close>

text \<open>
  The backend is TypeScript running on Cloudflare Workers. The embedding follows the
  source files function by function.

  \<^item> Identifiers, storage keys, file names and mime types are \<open>string\<close>, a list of
    code units below 256; the functions that cut strings (\<open>split\<close>, \<open>pop\<close>) are
    polymorphic in the character type. A file name with a code unit above 255 is outside
    the embedding.
  \<^item> A password is a JavaScript string, that is a sequence of UTF-16 code units
    (\<open>16 word list\<close>), because \<open>TextEncoder.encode\<close> depends on the code units.
  \<^item> JavaScript numbers that hold sizes, counters and hours are \<open>int\<close>; \<open>NaN\<close> is
    a separate constructor where the source can produce it.
  \<^item> Timestamps are milliseconds since the epoch (\<open>int\<close>). The source stores them
    as ISO strings produced by \<open>toISOString\<close>, whose string order is the numeric order.
  \<^item> An optional field (\<open>undefined\<close>, SQL \<open>NULL\<close>) is an \<open>option\<close>.
  \<^item> The clock (\<open>new Date()\<close>) and the random bytes (\<open>crypto.getRandomValues\<close>)
    are explicit arguments.
\<close>

type_synonym byte = "8 word"
type_synonym jsstring = "16 word list"
type_synonym timestamp = int

section \<open>Identifier and secret utilities (backend/src/utils/crypto.ts)\<close>

subsection \<open>generateId\<close>

definition chars :: string where
  "chars = ''ABCDEFGHIJKLMNOPQRSTUVWXYZabcdefghijklmnopqrstuvwxyz0123456789''"

text \<open>
  \<open>randomArray\<close> is the content of the \<open>Uint8Array\<close> after
  \<open>crypto.getRandomValues\<close> has filled it; the loop reads indices \<open>0..<length\<close>.
\<close>

definition generateId :: "nat \<Rightarrow> (nat \<Rightarrow> byte) \<Rightarrow> string" where
  "generateId len randomArray =
     map (\<lambda>i. chars ! (unat (randomArray i) mod length chars)) [0..<len]"

subsection \<open>String.prototype.split with a one-character separator\<close>

fun js_split :: "'a \<Rightarrow> 'a list \<Rightarrow> 'a list list" where
  "js_split sep [] = [[]]"
| "js_split sep (c # cs) =
     (if c = sep then [] # js_split sep cs
      else (case js_split sep cs of
              [] \<Rightarrow> [[c]]
            | w # ws \<Rightarrow> (c # w) # ws))"

subsection \<open>generateSecureFilename\<close>

text \<open>
  \<^verbatim>\<open>
  const extension = originalFilename.split('.').pop() || '';
  const id = generateId(16);
  return extension ? `${id}.${extension}` : id;
  \<close>
  \<open>split\<close> never returns an empty array, so \<open>pop\<close> is the last piece; the empty
  string is falsy.
\<close>

definition generateSecureFilename :: "(nat \<Rightarrow> byte) \<Rightarrow> string \<Rightarrow> string" where
  "generateSecureFilename randomArray originalFilename =
     (let popped = last (js_split CHR ''.'' originalFilename);
          extension = (if popped \<noteq> [] then popped else []);
          ident = generateId 16 randomArray
      in if extension \<noteq> [] then ident @ ''.'' @ extension else ident)"

subsection \<open>sanitizeFilename\<close>

definition unsafe_chars :: "char list" where
  "unsafe_chars = [CHR ''<'', CHR ''>'', CHR '':'', CHR 0x22, CHR ''/'', CHR 0x5C,
                   CHR ''|'', CHR ''?'', CHR ''*'']"

text \<open>The class \<open>\s\<close> of a JavaScript regular expression, on the code units below 256.\<close>

definition is_space :: "char \<Rightarrow> bool" where
  "is_space c = (c \<in> set [CHR 0x09, CHR 0x0A, CHR 0x0B, CHR 0x0C, CHR 0x0D, CHR 0x20, CHR 0xA0])"

function replace_spaces :: "string \<Rightarrow> string" where
  "replace_spaces [] = []"
| "replace_spaces (c # cs) =
     (if is_space c then CHR ''_'' # replace_spaces (dropWhile is_space cs)
      else c # replace_spaces cs)"
  by pat_completeness auto
termination
  by (relation "measure length") (auto simp: length_dropWhile_le less_Suc_eq_le)

definition sanitizeFilename :: "string \<Rightarrow> string" where
  "sanitizeFilename filename =
     take 255 (replace_spaces (map (\<lambda>c. if c \<in> set unsafe_chars then CHR ''_'' else c) filename))"

subsection \<open>TextEncoder.encode\<close>

text \<open>
  \<open>new TextEncoder().encode(password)\<close> first converts the string to a sequence of
  Unicode scalar values, replacing every unpaired surrogate by U+FFFD, and then writes
  UTF-8.
\<close>

definition is_high_surrogate :: "16 word \<Rightarrow> bool" where
  "is_high_surrogate u = (0xD800 \<le> u \<and> u \<le> 0xDBFF)"
definition is_low_surrogate :: "16 word \<Rightarrow> bool" where
  "is_low_surrogate u = (0xDC00 \<le> u \<and> u \<le> 0xDFFF)"

fun code_points :: "jsstring \<Rightarrow> nat list" where
  "code_points [] = []"
| "code_points [u] = [if is_high_surrogate u \<or> is_low_surrogate u then 0xFFFD else unat u]"
| "code_points (u # v # rest) =
     (if is_high_surrogate u \<and> is_low_surrogate v
      then (0x10000 + (unat u - 0xD800) * 0x400 + (unat v - 0xDC00)) # code_points rest
      else (if is_high_surrogate u \<or> is_low_surrogate u then 0xFFFD else unat u)
           # code_points (v # rest))"

definition utf8 :: "nat \<Rightarrow> byte list" where
  "utf8 cp =
     (if cp < 0x80 then [of_nat cp]
      else if cp < 0x800 then [of_nat (0xC0 + cp div 0x40), of_nat (0x80 + cp mod 0x40)]
      else if cp < 0x10000 then
        [of_nat (0xE0 + cp div 0x1000), of_nat (0x80 + cp div 0x40 mod 0x40),
         of_nat (0x80 + cp mod 0x40)]
      else
        [of_nat (0xF0 + cp div 0x40000), of_nat (0x80 + cp div 0x1000 mod 0x40),
         of_nat (0x80 + cp div 0x40 mod 0x40), of_nat (0x80 + cp mod 0x40)])"

definition encode :: "jsstring \<Rightarrow> byte list" where
  "encode s = concat (map utf8 (code_points s))"

subsection \<open>crypto.subtle.digest('SHA-256', data)\<close>

text \<open>
  SHA-256 as FIPS 180-4 defines it: padding to a multiple of 64 bytes, a message schedule
  of 64 words per block and 64 rounds of the compression function.
\<close>

text \<open>The round constants, as the eight rows of the table in section 4.2.2 of the standard.\<close>

definition K_rows :: "32 word list list" where
  "K_rows =
    [[0x428a2f98, 0x71374491, 0xb5c0fbcf, 0xe9b5dba5, 0x3956c25b, 0x59f111f1, 0x923f82a4, 0xab1c5ed5],
     [0xd807aa98, 0x12835b01, 0x243185be, 0x550c7dc3, 0x72be5d74, 0x80deb1fe, 0x9bdc06a7, 0xc19bf174],
     [0xe49b69c1, 0xefbe4786, 0x0fc19dc6, 0x240ca1cc, 0x2de92c6f, 0x4a7484aa, 0x5cb0a9dc, 0x76f988da],
     [0x983e5152, 0xa831c66d, 0xb00327c8, 0xbf597fc7, 0xc6e00bf3, 0xd5a79147, 0x06ca6351, 0x14292967],
     [0x27b70a85, 0x2e1b2138, 0x4d2c6dfc, 0x53380d13, 0x650a7354, 0x766a0abb, 0x81c2c92e, 0x92722c85],
     [0xa2bfe8a1, 0xa81a664b, 0xc24b8b70, 0xc76c51a3, 0xd192e819, 0xd6990624, 0xf40e3585, 0x106aa070],
     [0x19a4c116, 0x1e376c08, 0x2748774c, 0x34b0bcb5, 0x391c0cb3, 0x4ed8aa4a, 0x5b9cca4f, 0x682e6ff3],
     [0x748f82ee, 0x78a5636f, 0x84c87814, 0x8cc70208, 0x90befffa, 0xa4506ceb, 0xbef9a3f7, 0xc67178f2]]"

definition K :: "32 word list" where
  "K = concat K_rows"

definition H0 :: "32 word list" where
  "H0 = [0x6a09e667, 0xbb67ae85, 0x3c6ef372, 0xa54ff53a, 0x510e527f, 0x9b05688c, 0x1f83d9ab, 0x5be0cd19]"

definition rotr :: "nat \<Rightarrow> 32 word \<Rightarrow> 32 word" where
  "rotr n x = drop_bit n x OR push_bit (32 - n) x"

definition sha_pad :: "byte list \<Rightarrow> byte list" where
  "sha_pad m =
     m @ [0x80] @ replicate ((119 - length m mod 64) mod 64) 0
       @ map (\<lambda>i. ucast (drop_bit (8 * (7 - i)) (of_nat (8 * length m) :: 64 word))) [0..<8]"

definition blocks :: "byte list \<Rightarrow> byte list list" where
  "blocks bs = map (\<lambda>i. take 64 (drop (64 * i) bs)) [0..<length bs div 64]"

definition be32 :: "byte list \<Rightarrow> 32 word" where
  "be32 bs = foldl (\<lambda>acc b. push_bit 8 acc OR ucast b) 0 bs"

definition words_of_block :: "byte list \<Rightarrow> 32 word list" where
  "words_of_block blk = map (\<lambda>i. be32 (take 4 (drop (4 * i) blk))) [0..<16]"

definition extend :: "32 word list \<Rightarrow> 32 word list" where
  "extend w =
     (let i = length w;
          x = w ! (i - 15); y = w ! (i - 2);
          s0 = rotr 7 x XOR rotr 18 x XOR drop_bit 3 x;
          s1 = rotr 17 y XOR rotr 19 y XOR drop_bit 10 y
      in w @ [w ! (i - 16) + s0 + w ! (i - 7) + s1])"

definition schedule :: "byte list \<Rightarrow> 32 word list" where
  "schedule blk = (extend ^^ 48) (words_of_block blk)"

fun sha_round :: "32 word list \<Rightarrow> 32 word \<times> 32 word \<Rightarrow> 32 word list" where
  "sha_round [a, b, c, d, e, f, g, h] (k, w) =
     (let S1 = rotr 6 e XOR rotr 11 e XOR rotr 25 e;
          ch = (e AND f) XOR (NOT e AND g);
          t1 = h + S1 + ch + k + w;
          S0 = rotr 2 a XOR rotr 13 a XOR rotr 22 a;
          maj = (a AND b) XOR (a AND c) XOR (b AND c);
          t2 = S0 + maj
      in [t1 + t2, a, b, c, d + t1, e, f, g])"
| "sha_round v (k, w) = v"

definition compress :: "32 word list \<Rightarrow> byte list \<Rightarrow> 32 word list" where
  "compress h blk = map2 (+) h (foldl sha_round h (zip K (schedule blk)))"

definition bytes_of_word :: "32 word \<Rightarrow> byte list" where
  "bytes_of_word w = [ucast (drop_bit 24 w), ucast (drop_bit 16 w), ucast (drop_bit 8 w), ucast w]"

definition sha256 :: "byte list \<Rightarrow> byte list" where
  "sha256 m = concat (map bytes_of_word (foldl compress H0 (blocks (sha_pad m))))"

subsection \<open>hashPassword and verifyPassword\<close>

text \<open>
  \<^verbatim>\<open>hashArray.map(b => b.toString(16).padStart(2, '0')).join('')\<close>: two lower-case
  hexadecimal digits per byte.
\<close>

definition hex_digits :: string where
  "hex_digits = ''0123456789abcdef''"

definition hex2 :: "byte \<Rightarrow> string" where
  "hex2 b = [hex_digits ! (unat b div 16), hex_digits ! (unat b mod 16)]"

definition hashPassword :: "jsstring \<Rightarrow> string" where
  "hashPassword password = concat (map hex2 (sha256 (encode password)))"

definition verifyPassword :: "jsstring \<Rightarrow> string \<Rightarrow> bool" where
  "verifyPassword password hash = (hashPassword password = hash)"

section \<open>Validation utilities (backend/src/utils/validation.ts)\<close>

text \<open>A JavaScript number as the handlers meet it: an integer, or \<open>NaN\<close>.\<close>

datatype number = NaN | Num int

definition allowedTypes :: "string list" where
  "allowedTypes =
    [''image/jpeg'', ''image/png'', ''image/gif'', ''image/webp'', ''image/svg+xml'',
     ''application/pdf'', ''text/plain'', ''text/markdown'', ''application/msword'',
     ''application/vnd.openxmlformats-officedocument.wordprocessingml.document'',
     ''application/vnd.ms-excel'',
     ''application/vnd.openxmlformats-officedocument.spreadsheetml.sheet'',
     ''application/vnd.ms-powerpoint'',
     ''application/vnd.openxmlformats-officedocument.presentationml.presentation'',
     ''application/zip'', ''application/x-rar-compressed'', ''application/x-7z-compressed'',
     ''application/x-tar'', ''application/gzip'',
     ''text/html'', ''text/css'', ''text/javascript'', ''application/javascript'',
     ''text/x-javascript'', ''application/json'', ''application/xml'', ''text/xml'',
     ''text/x-python'', ''application/x-python-code'', ''text/x-java-source'', ''text/x-c'',
     ''text/x-c++'', ''text/x-csharp'', ''text/x-php'', ''text/x-ruby'', ''text/x-go'',
     ''text/x-rust'', ''text/x-typescript'', ''application/typescript'', ''text/x-sql'',
     ''application/sql'', ''text/x-sh'', ''application/x-sh'', ''text/x-yaml'',
     ''application/x-yaml'', ''text/yaml'', ''application/yaml'',
     ''audio/mpeg'', ''audio/wav'', ''audio/ogg'', ''audio/mp4'',
     ''video/mp4'', ''video/webm'', ''video/ogg'', ''video/quicktime'',
     ''application/octet-stream'']"

definition isAllowedFileType :: "string \<Rightarrow> bool" where
  "isAllowedFileType mimeType = (mimeType \<in> set allowedTypes)"

text \<open>
  \<^verbatim>\<open>return size > 0 && size <= maxSize;\<close> The bound comes from \<open>parseInt\<close> of an
  environment variable; every comparison with \<open>NaN\<close> is false.
\<close>

fun isValidFileSize :: "int \<Rightarrow> number \<Rightarrow> bool" where
  "isValidFileSize size' (Num maxSize) = (size' > 0 \<and> size' \<le> maxSize)"
| "isValidFileSize size' NaN = False"

fun isValidExpiryHours :: "int \<Rightarrow> number \<Rightarrow> bool" where
  "isValidExpiryHours hours (Num maxHours) = (hours > 0 \<and> hours \<le> maxHours)"
| "isValidExpiryHours hours NaN = False"

definition calculateExpiryDate :: "timestamp \<Rightarrow> int \<Rightarrow> timestamp" where
  "calculateExpiryDate now hours = now + hours * 60 * 60 * 1000"

definition isExpired :: "timestamp \<Rightarrow> timestamp \<Rightarrow> bool" where
  "isExpired now expiresAt = (now > expiresAt)"

section \<open>Database records (backend/src/types/database.ts)\<close>

record FileRecord =
  f_id :: string
  f_filename :: string
  f_original_filename :: string
  f_mime_type :: string
  f_size :: int
  f_upload_ip :: "string option"
  f_created_at :: timestamp
  f_expires_at :: timestamp
  f_download_count :: int
  f_max_downloads :: "int option"
  f_password_hash :: "string option"
  f_is_deleted :: bool

record TextShareRecord =
  t_id :: string
  t_title :: "jsstring option"
  t_content :: jsstring
  t_language :: jsstring
  t_upload_ip :: "string option"
  t_created_at :: timestamp
  t_expires_at :: timestamp
  t_view_count :: int
  t_max_views :: "int option"
  t_password_hash :: "string option"
  t_is_deleted :: bool

record CreateFileInput =
  cf_filename :: string
  cf_original_filename :: string
  cf_mime_type :: string
  cf_size :: int
  cf_upload_ip :: "string option"
  cf_expires_at :: timestamp
  cf_max_downloads :: "int option"
  cf_password :: "string option"

record CreateTextShareInput =
  ct_title :: "jsstring option"
  ct_content :: jsstring
  ct_language :: "jsstring option"
  ct_upload_ip :: "string option"
  ct_expires_at :: timestamp
  ct_max_views :: "int option"
  ct_password :: "string option"

section \<open>The stores\<close>

text \<open>
  An object of the R2 bucket, and the state the handlers share: the two D1 tables
  (database/migrations/0001\_initial.sql) and the bucket, whose association list holds one
  entry per key, in the order in which \<open>bucket.list\<close> enumerates them: sorted by key.
\<close>

record R2Object =
  body :: "byte list"
  customMetadata :: "(string \<times> string) list"

record world =
  files :: "FileRecord list"
  text_shares :: "TextShareRecord list"
  bucket :: "(string \<times> R2Object) list"

text \<open>JavaScript truthiness of an optional number and of an optional string.\<close>

fun truthy_num :: "int option \<Rightarrow> bool" where
  "truthy_num None = False"
| "truthy_num (Some n) = (n \<noteq> 0)"

fun truthy_str :: "'a list option \<Rightarrow> bool" where
  "truthy_str None = False"
| "truthy_str (Some s) = (s \<noteq> [])"

text \<open>\<open>x || null\<close> as it is bound to an SQL parameter.\<close>

definition or_null_num :: "int option \<Rightarrow> int option" where
  "or_null_num x = (if truthy_num x then x else None)"

definition or_null_str :: "'a list option \<Rightarrow> 'a list option" where
  "or_null_str x = (if truthy_str x then x else None)"

section \<open>DatabaseService (services/database.ts)\<close>

text \<open>
  \<open>id TEXT PRIMARY KEY\<close>: an \<open>INSERT\<close> whose id is already in the table fails, and
  the failure is thrown to the caller.
\<close>

datatype db_error = ConstraintViolation

subsection \<open>File operations\<close>

text \<open>
  \<open>createFile\<close> returns the object it builds from its input; the row it writes takes
  \<open>download_count\<close> and \<open>is_deleted\<close> from the column defaults and \<open>NULL\<close> for the
  falsy optional inputs.
\<close>

definition createFile ::
  "(nat \<Rightarrow> byte) \<Rightarrow> timestamp \<Rightarrow> CreateFileInput \<Rightarrow> world \<Rightarrow> db_error + (FileRecord \<times> world)" where
  "createFile randomArray now input w =
     (let ident = generateId 12 randomArray;
          row = \<lparr> f_id = ident, f_filename = cf_filename input,
                  f_original_filename = cf_original_filename input,
                  f_mime_type = cf_mime_type input, f_size = cf_size input,
                  f_upload_ip = or_null_str (cf_upload_ip input),
                  f_created_at = now, f_expires_at = cf_expires_at input,
                  f_download_count = 0,
                  f_max_downloads = or_null_num (cf_max_downloads input),
                  f_password_hash = or_null_str (cf_password input),
                  f_is_deleted = False \<rparr>;
          result = \<lparr> f_id = ident, f_filename = cf_filename input,
                     f_original_filename = cf_original_filename input,
                     f_mime_type = cf_mime_type input, f_size = cf_size input,
                     f_upload_ip = cf_upload_ip input,
                     f_created_at = now, f_expires_at = cf_expires_at input,
                     f_download_count = 0,
                     f_max_downloads = cf_max_downloads input,
                     f_password_hash = cf_password input,
                     f_is_deleted = False \<rparr>
      in if ident \<in> set (map f_id (files w)) then Inl ConstraintViolation
         else Inr (result, w\<lparr>files := files w @ [row]\<rparr>))"

definition getFile :: "string \<Rightarrow> world \<Rightarrow> FileRecord option" where
  "getFile ident w = find (\<lambda>r. f_id r = ident \<and> \<not> f_is_deleted r) (files w)"

definition incrementDownloadCount :: "string \<Rightarrow> world \<Rightarrow> world" where
  "incrementDownloadCount ident w =
     w\<lparr>files := map (\<lambda>r. if f_id r = ident
                           then r\<lparr>f_download_count := f_download_count r + 1\<rparr> else r)
                     (files w)\<rparr>"

definition deleteFile :: "string \<Rightarrow> world \<Rightarrow> world" where
  "deleteFile ident w =
     w\<lparr>files := map (\<lambda>r. if f_id r = ident then r\<lparr>f_is_deleted := True\<rparr> else r) (files w)\<rparr>"

subsection \<open>Text share operations\<close>

definition createTextShare ::
  "(nat \<Rightarrow> byte) \<Rightarrow> timestamp \<Rightarrow> CreateTextShareInput \<Rightarrow> world
     \<Rightarrow> db_error + (TextShareRecord \<times> world)" where
  "createTextShare randomArray now input w =
     (let ident = generateId 12 randomArray;
          lang = (if truthy_str (ct_language input) then the (ct_language input)
                  else [0x74, 0x65, 0x78, 0x74]);
          row = \<lparr> t_id = ident, t_title = or_null_str (ct_title input),
                  t_content = ct_content input, t_language = lang,
                  t_upload_ip = or_null_str (ct_upload_ip input),
                  t_created_at = now, t_expires_at = ct_expires_at input,
                  t_view_count = 0,
                  t_max_views = or_null_num (ct_max_views input),
                  t_password_hash = or_null_str (ct_password input),
                  t_is_deleted = False \<rparr>;
          result = \<lparr> t_id = ident, t_title = ct_title input,
                     t_content = ct_content input, t_language = lang,
                     t_upload_ip = ct_upload_ip input,
                     t_created_at = now, t_expires_at = ct_expires_at input,
                     t_view_count = 0,
                     t_max_views = ct_max_views input,
                     t_password_hash = ct_password input,
                     t_is_deleted = False \<rparr>
      in if ident \<in> set (map t_id (text_shares w)) then Inl ConstraintViolation
         else Inr (result, w\<lparr>text_shares := text_shares w @ [row]\<rparr>))"

definition getTextShare :: "string \<Rightarrow> world \<Rightarrow> TextShareRecord option" where
  "getTextShare ident w = find (\<lambda>r. t_id r = ident \<and> \<not> t_is_deleted r) (text_shares w)"

definition incrementViewCount :: "string \<Rightarrow> world \<Rightarrow> world" where
  "incrementViewCount ident w =
     w\<lparr>text_shares := map (\<lambda>r. if t_id r = ident
                                 then r\<lparr>t_view_count := t_view_count r + 1\<rparr> else r)
                           (text_shares w)\<rparr>"

definition deleteTextShare :: "string \<Rightarrow> world \<Rightarrow> world" where
  "deleteTextShare ident w =
     w\<lparr>text_shares := map (\<lambda>r. if t_id r = ident then r\<lparr>t_is_deleted := True\<rparr> else r)
                           (text_shares w)\<rparr>"

subsection \<open>Cleanup operations\<close>

text \<open>
  \<^verbatim>\<open>UPDATE files SET is_deleted = TRUE WHERE expires_at < ? AND is_deleted = FALSE\<close>
  with the current time as parameter; the result is \<open>meta.changes\<close>, the number of rows
  the statement updated.
\<close>

definition cleanupExpiredFiles :: "timestamp \<Rightarrow> world \<Rightarrow> int \<times> world" where
  "cleanupExpiredFiles now w =
     (let hit = (\<lambda>r. f_expires_at r < now \<and> \<not> f_is_deleted r)
      in (int (length (filter hit (files w))),
          w\<lparr>files := map (\<lambda>r. if hit r then r\<lparr>f_is_deleted := True\<rparr> else r) (files w)\<rparr>))"

definition cleanupExpiredTextShares :: "timestamp \<Rightarrow> world \<Rightarrow> int \<times> world" where
  "cleanupExpiredTextShares now w =
     (let hit = (\<lambda>r. t_expires_at r < now \<and> \<not> t_is_deleted r)
      in (int (length (filter hit (text_shares w))),
          w\<lparr>text_shares := map (\<lambda>r. if hit r then r\<lparr>t_is_deleted := True\<rparr> else r)
                                (text_shares w)\<rparr>))"

subsection \<open>Validation helpers\<close>

text \<open>The result object \<open>{ accessible, reason? }\<close> as a pair.\<close>

definition isFileAccessible :: "timestamp \<Rightarrow> FileRecord \<Rightarrow> bool \<times> string option" where
  "isFileAccessible now file =
     (if isExpired now (f_expires_at file) then (False, Some ''expired'')
      else if truthy_num (f_max_downloads file)
              \<and> f_download_count file \<ge> the (f_max_downloads file)
           then (False, Some ''download_limit_reached'')
      else (True, None))"

definition isTextShareAccessible :: "timestamp \<Rightarrow> TextShareRecord \<Rightarrow> bool \<times> string option" where
  "isTextShareAccessible now textShare =
     (if isExpired now (t_expires_at textShare) then (False, Some ''expired'')
      else if truthy_num (t_max_views textShare)
              \<and> t_view_count textShare \<ge> the (t_max_views textShare)
           then (False, Some ''view_limit_reached'')
      else (True, None))"

section \<open>StorageService (services/storage.ts)\<close>

text \<open>
  \<open>bucket.put\<close>: the object replaces the one stored under the key, or takes its place in
  the order of the keys, in which \<open>bucket.list\<close> enumerates the objects.
\<close>

fun put :: "string \<Rightarrow> 'v \<Rightarrow> (string \<times> 'v) list \<Rightarrow> (string \<times> 'v) list" where
  "put k v [] = [(k, v)]"
| "put k v ((k', v') # kvs) =
     (if k = k' then (k, v) # kvs
      else if k < k' then (k, v) # (k', v') # kvs
      else (k', v') # put k v kvs)"

definition uploadFile :: "string \<Rightarrow> byte list \<Rightarrow> (string \<times> string) list option \<Rightarrow> world \<Rightarrow> world" where
  "uploadFile key data metadata w =
     (let options = (case metadata of None \<Rightarrow> [] | Some m \<Rightarrow> m)
      in w\<lparr>bucket := put key \<lparr>body = data, customMetadata = options\<rparr> (bucket w)\<rparr>)"

definition downloadFile :: "string \<Rightarrow> world \<Rightarrow> R2Object option" where
  "downloadFile key w = map_of (bucket w) key"

definition storage_deleteFile :: "string \<Rightarrow> world \<Rightarrow> world" where
  "storage_deleteFile key w = w\<lparr>bucket := filter (\<lambda>kv. fst kv \<noteq> key) (bucket w)\<rparr>"

text \<open>
  \<open>listFiles(prefix?, limit = 1000)\<close>: one page of \<open>bucket.list\<close>, at most \<open>limit\<close>
  objects whose key starts with the prefix.
\<close>

definition listFiles :: "string option \<Rightarrow> nat \<Rightarrow> world \<Rightarrow> (string \<times> R2Object) list" where
  "listFiles prefix limit w =
     take limit (filter (\<lambda>kv. case prefix of None \<Rightarrow> True
                                | Some p \<Rightarrow> if p = [] then True else take (length p) (fst kv) = p)
                        (bucket w))"

text \<open>
  \<^verbatim>\<open>
  for (const object of objects.objects) {
    const fileId = object.key.split('.')[0]; // Extract ID from filename
    if (!validFileIds.includes(fileId)) {
      await this.deleteFile(object.key);
      deletedCount++;
    }
  }
  \<close>
\<close>

fun cleanupOrphanedFiles_loop ::
  "string list \<Rightarrow> (string \<times> R2Object) list \<Rightarrow> int \<Rightarrow> world \<Rightarrow> int \<times> world" where
  "cleanupOrphanedFiles_loop validFileIds [] deletedCount w = (deletedCount, w)"
| "cleanupOrphanedFiles_loop validFileIds (object # objects) deletedCount w =
     (let fileId = (case js_split CHR ''.'' (fst object) of [] \<Rightarrow> [] | p # ps \<Rightarrow> p)
      in if fileId \<notin> set validFileIds
         then cleanupOrphanedFiles_loop validFileIds objects (deletedCount + 1)
                (storage_deleteFile (fst object) w)
         else cleanupOrphanedFiles_loop validFileIds objects deletedCount w)"

definition cleanupOrphanedFiles :: "string list \<Rightarrow> world \<Rightarrow> int \<times> world" where
  "cleanupOrphanedFiles validFileIds w =
     cleanupOrphanedFiles_loop validFileIds (listFiles None 1000 w) 0 w"

section \<open>Requests and responses (types/api.ts, types/env.ts, utils/response.ts)\<close>

datatype ErrorCode =
    VALIDATION_ERROR | FILE_NOT_FOUND | FILE_EXPIRED | DOWNLOAD_LIMIT_REACHED
  | VIEW_LIMIT_REACHED | INVALID_PASSWORD | FILE_TOO_LARGE | UNSUPPORTED_FILE_TYPE
  | RATE_LIMIT_EXCEEDED | INTERNAL_ERROR

text \<open>
  The message of an error response. The messages that the source builds with a template
  keep the interpolated value as an argument.
\<close>

datatype message =
    Message string
  | InvalidRequestParametersWith
  | FileSizeExceeds number
  | FileTypeNotSupported string
  | ExpiryHoursBetween1And number

record UploadResponse =
  ur_id :: string
  ur_filename :: string
  ur_size :: int
  ur_expires_at :: timestamp
  ur_download_url :: string
  ur_has_password :: bool

record TextShareCreateResponse =
  tc_id :: string
  tc_title :: "jsstring option"
  tc_expires_at :: timestamp
  tc_view_url :: string
  tc_has_password :: bool

record FileInfoResponse =
  fi_id :: string
  fi_filename :: string
  fi_original_filename :: string
  fi_mime_type :: string
  fi_size :: int
  fi_created_at :: timestamp
  fi_expires_at :: timestamp
  fi_download_count :: int
  fi_max_downloads :: "int option"
  fi_has_password :: bool
  fi_is_expired :: bool
  fi_is_download_limit_reached :: bool

record TextShareInfoResponse =
  ti_id :: string
  ti_title :: "jsstring option"
  ti_content :: jsstring
  ti_language :: jsstring
  ti_created_at :: timestamp
  ti_expires_at :: timestamp
  ti_view_count :: int
  ti_max_views :: "int option"
  ti_has_password :: bool
  ti_is_expired :: bool
  ti_is_view_limit_reached :: bool

datatype payload =
    Upload UploadResponse
  | TextShareCreate TextShareCreateResponse
  | FileInfo FileInfoResponse
  | TextShareInfo TextShareInfoResponse

text \<open>
  The responses of \<open>utils/response.ts\<close> and Hono's \<open>c.redirect\<close>, by what they
  carry: the JSON body \<open>{ success: false, error: message }\<close> with its status, the JSON
  body \<open>{ success: true, data }\<close> with its status, the file body with the file name,
  mime type and size of its headers, the text body with its content type, and the location
  of a redirect with its status.
\<close>

datatype response =
    errorBody message nat
  | successResponse payload nat
  | fileResponse "byte list" string string int
  | textResponse jsstring string
  | redirect string nat

text \<open>
  \<open>errorResponse(code, message, status, details?)\<close> builds an \<open>ApiError\<close> from its
  code and then leaves it out of the response: the body holds the message alone.
\<close>

definition errorResponse :: "ErrorCode \<Rightarrow> message \<Rightarrow> nat \<Rightarrow> response" where
  "errorResponse code msg status = errorBody msg status"

text \<open>
  \<open>new Response(body, { headers })\<close> and \<open>Headers.set\<close> throw a \<open>TypeError\<close> for a
  header value that holds NUL, LF or CR (the Fetch standard's header values).
  \<open>fileResponse\<close> puts the mime type into \<open>Content-Type\<close> and the file name, between
  double quotes, into \<open>Content-Disposition\<close>.
\<close>

definition legalHeaderValue :: "string \<Rightarrow> bool" where
  "legalHeaderValue v = list_all (\<lambda>c. c \<noteq> CHR 0x00 \<and> c \<noteq> CHR 0x0A \<and> c \<noteq> CHR 0x0D) v"

definition fileResponse_accepted :: "string \<Rightarrow> string \<Rightarrow> bool" where
  "fileResponse_accepted filename mimeType =
     (legalHeaderValue mimeType
      \<and> legalHeaderValue (''attachment; filename='' @ [CHR 0x22] @ filename @ [CHR 0x22]))"

text \<open>
  The environment after \<open>parseInt\<close> of its numeric variables, and what the handlers
  read from the request besides its body: the origin of its URL and the result of
  \<open>getClientIP\<close>.
\<close>

record Env =
  CORS_ORIGIN :: string
  MAX_FILE_SIZE :: number
  MAX_EXPIRY_HOURS :: number

record Request =
  origin :: string
  clientIP :: string

subsection \<open>JSON bodies and the zod schemas\<close>

datatype json = JNull | JBool bool | JNum int | JStr jsstring | JCompound

text \<open>
  What \<open>c.req.json()\<close> gives: a rejection for text that is not JSON, a value that is not
  an object, or an object, of which the schemas read the fields below.
\<close>

datatype 'a json_body = Unparsable | NotAnObject | Object 'a

fun z_string :: "nat \<Rightarrow> nat option \<Rightarrow> json \<Rightarrow> jsstring option" where
  "z_string lo hi (JStr s) =
     (if lo \<le> length s \<and> (case hi of None \<Rightarrow> True | Some h \<Rightarrow> length s \<le> h) then Some s else None)"
| "z_string lo hi j = None"

fun z_number :: "int \<Rightarrow> int option \<Rightarrow> json \<Rightarrow> int option" where
  "z_number lo hi (JNum n) =
     (if lo \<le> n \<and> (case hi of None \<Rightarrow> True | Some h \<Rightarrow> n \<le> h) then Some n else None)"
| "z_number lo hi j = None"

fun z_optional :: "(json \<Rightarrow> 'a option) \<Rightarrow> json option \<Rightarrow> 'a option option" where
  "z_optional p None = Some None"
| "z_optional p (Some j) = (case p j of None \<Rightarrow> None | Some v \<Rightarrow> Some (Some v))"

fun z_default :: "'a \<Rightarrow> 'a option option \<Rightarrow> 'a option" where
  "z_default d None = None"
| "z_default d (Some None) = Some d"
| "z_default d (Some (Some v)) = Some v"

record PasswordBody =
  pb_password :: "json option"

text \<open>\<open>downloadFileSchema\<close> and \<open>viewTextShareSchema\<close>: \<open>password: z.string().optional()\<close>.\<close>

definition passwordSchema :: "PasswordBody json_body \<Rightarrow> jsstring option option" where
  "passwordSchema b =
     (case b of
        Unparsable \<Rightarrow> Some None
      | NotAnObject \<Rightarrow> None
      | Object obj \<Rightarrow> z_optional (z_string 0 None) (pb_password obj))"

record CreateTextShareBody =
  cb_title :: "json option"
  cb_content :: "json option"
  cb_language :: "json option"
  cb_expiry_hours :: "json option"
  cb_max_views :: "json option"
  cb_password :: "json option"

record CreateTextShareRequest =
  cr_title :: "jsstring option"
  cr_content :: jsstring
  cr_language :: jsstring
  cr_expiry_hours :: int
  cr_max_views :: "int option"
  cr_password :: "jsstring option"

definition createTextShareSchema :: "CreateTextShareBody \<Rightarrow> CreateTextShareRequest option" where
  "createTextShareSchema b =
     (case z_optional (z_string 0 (Some 200)) (cb_title b) of None \<Rightarrow> None | Some title \<Rightarrow>
      case (case cb_content b of None \<Rightarrow> None | Some j \<Rightarrow> z_string 1 (Some 1000000) j) of
        None \<Rightarrow> None | Some content \<Rightarrow>
      case z_default [0x74, 0x65, 0x78, 0x74] (z_optional (z_string 0 (Some 50)) (cb_language b)) of
        None \<Rightarrow> None | Some language \<Rightarrow>
      case z_default 24 (z_optional (z_number 1 (Some 168)) (cb_expiry_hours b)) of
        None \<Rightarrow> None | Some expiry_hours \<Rightarrow>
      case z_optional (z_number 1 None) (cb_max_views b) of None \<Rightarrow> None | Some max_views \<Rightarrow>
      case z_optional (z_string 1 None) (cb_password b) of None \<Rightarrow> None | Some password \<Rightarrow>
      Some \<lparr> cr_title = title, cr_content = content, cr_language = language,
             cr_expiry_hours = expiry_hours, cr_max_views = max_views,
             cr_password = password \<rparr>)"

subsection \<open>The upload form\<close>

text \<open>
  A text field of the form as \<open>Number\<close> and \<open>trim\<close> see it: absent (\<open>null\<close>), empty or
  white space only, not a numeral, or a numeral.
\<close>

datatype form_number = Missing | Blank | NotNumeric | Numeric int

fun Number :: "form_number \<Rightarrow> number" where
  "Number Missing = Num 0"
| "Number Blank = Num 0"
| "Number NotNumeric = NaN"
| "Number (Numeric n) = Num n"

definition js_whitespace :: "16 word \<Rightarrow> bool" where
  "js_whitespace u =
     (u \<in> set [0x09, 0x0A, 0x0B, 0x0C, 0x0D, 0x20, 0xA0, 0x1680, 0x2028, 0x2029, 0x202F,
                0x205F, 0x3000, 0xFEFF] \<or> (0x2000 \<le> u \<and> u \<le> 0x200A))"

record File =
  file_name :: string
  file_type :: string
  file_content :: "byte list"

definition file_size :: "File \<Rightarrow> int" where
  "file_size f = int (length (file_content f))"

record UploadForm =
  form_file :: "File option"
  form_expiry_hours :: form_number
  form_max_downloads :: form_number
  form_password :: "jsstring option"

text \<open>
  \<open>uploadFileSchema\<close> on \<open>{ expiry_hours, max_downloads, password }\<close>:
  \<open>z.number().min(1).max(168)\<close>, \<open>z.number().min(1).optional()\<close> (zod's \<open>number\<close>
  refuses \<open>NaN\<close>) and \<open>z.string().min(1).optional()\<close>.
\<close>

definition uploadFileSchema :: "int \<Rightarrow> number option \<Rightarrow> jsstring option \<Rightarrow> bool" where
  "uploadFileSchema expiry_hours max_downloads password =
     (1 \<le> expiry_hours \<and> expiry_hours \<le> 168
      \<and> (case max_downloads of None \<Rightarrow> True | Some NaN \<Rightarrow> False | Some (Num m) \<Rightarrow> 1 \<le> m)
      \<and> (case password of None \<Rightarrow> True | Some p \<Rightarrow> 1 \<le> length p))"

section \<open>Handlers\<close>

text \<open>
  Every handler is a function from the request and the stores to the response and the
  stores after it. A handler's \<open>try\<close>/\<open>catch\<close> turns a thrown failure into the
  response 500 \<open>INTERNAL_ERROR\<close>. The handlers that only read return the response alone.
\<close>

subsection \<open>File upload (handlers/upload.ts)\<close>

definition upload_post ::
  "Env \<Rightarrow> Request \<Rightarrow> (nat \<Rightarrow> byte) \<Rightarrow> (nat \<Rightarrow> byte) \<Rightarrow> timestamp \<Rightarrow> timestamp
     \<Rightarrow> UploadForm option \<Rightarrow> world \<Rightarrow> response \<times> world" where
  "upload_post env request rndFilename rndId nowExpiry nowCreate formData w =
     (case formData of
        None \<Rightarrow> (errorResponse INTERNAL_ERROR (Message ''Failed to upload file'') 500, w)
      | Some form \<Rightarrow>
     (case form_file form of
        None \<Rightarrow> (errorResponse VALIDATION_ERROR (Message ''No file provided'') 400, w)
      | Some file \<Rightarrow>
     (let expiryHours = (case Number (form_expiry_hours form) of
                            NaN \<Rightarrow> 24 | Num n \<Rightarrow> if n \<noteq> 0 then n else 24);
          maxDownloads = (case form_max_downloads form of
                            Missing \<Rightarrow> None | Blank \<Rightarrow> None
                          | other \<Rightarrow> Some (Number other));
          password = (case form_password form of
                        None \<Rightarrow> None
                      | Some p \<Rightarrow> if p \<noteq> [] \<and> \<not> list_all js_whitespace p then Some p else None)
      in
      if \<not> uploadFileSchema expiryHours maxDownloads password
      then (errorResponse VALIDATION_ERROR InvalidRequestParametersWith 400, w)
      else
     (let maxFileSize = MAX_FILE_SIZE env;
          maxExpiryHours = MAX_EXPIRY_HOURS env
      in
      if \<not> isValidFileSize (file_size file) maxFileSize
      then (errorResponse FILE_TOO_LARGE (FileSizeExceeds maxFileSize) 400, w)
      else if \<not> isAllowedFileType (file_type file)
      then (errorResponse UNSUPPORTED_FILE_TYPE (FileTypeNotSupported (file_type file)) 400, w)
      else if \<not> isValidExpiryHours expiryHours maxExpiryHours
      then (errorResponse VALIDATION_ERROR (ExpiryHoursBetween1And maxExpiryHours) 400, w)
      else
     (let originalFilename = sanitizeFilename (file_name file);
          secureFilename = generateSecureFilename rndFilename originalFilename;
          fileBuffer = file_content file;
          ip = clientIP request;
          expiresAt = calculateExpiryDate nowExpiry expiryHours;
          passwordHash = (if truthy_str password then Some (hashPassword (the password)) else None)
      in
      case createFile rndId nowCreate
             \<lparr> cf_filename = secureFilename, cf_original_filename = originalFilename,
               cf_mime_type = file_type file, cf_size = file_size file,
               cf_upload_ip = Some ip, cf_expires_at = expiresAt,
               cf_max_downloads = (case maxDownloads of Some (Num m) \<Rightarrow> Some m | _ \<Rightarrow> None),
               cf_password = passwordHash \<rparr> w of
        Inl e \<Rightarrow> (errorResponse INTERNAL_ERROR (Message ''Failed to upload file'') 500, w)
      | Inr (fileRecord, w1) \<Rightarrow>
     (let w2 = uploadFile secureFilename fileBuffer
                 (Some [(''original-filename'', originalFilename),
                        (''mime-type'', file_type file),
                        (''upload-ip'', ip),
                        (''file-id'', f_id fileRecord)]) w1
      in (successResponse
            (Upload \<lparr> ur_id = f_id fileRecord, ur_filename = originalFilename,
                      ur_size = file_size file, ur_expires_at = expiresAt,
                      ur_download_url = origin request @ ''/api/download/'' @ f_id fileRecord,
                      ur_has_password = truthy_str password \<rparr>) 201, w2)))))))"

subsection \<open>File download (handlers/download.ts)\<close>

text \<open>
  \<open>GET /info/:id\<close>. The clock is read twice, by \<open>isFileAccessible\<close> and by the
  \<open>is_expired\<close> field.
\<close>

definition download_info :: "timestamp \<Rightarrow> timestamp \<Rightarrow> string \<Rightarrow> world \<Rightarrow> response" where
  "download_info now1 now2 fileId w =
     (case getFile fileId w of
        None \<Rightarrow> errorResponse FILE_NOT_FOUND (Message ''File not found'') 404
      | Some file \<Rightarrow>
     (let accessibility = isFileAccessible now1 file
      in successResponse
           (FileInfo \<lparr> fi_id = f_id file, fi_filename = f_filename file,
                       fi_original_filename = f_original_filename file,
                       fi_mime_type = f_mime_type file, fi_size = f_size file,
                       fi_created_at = f_created_at file, fi_expires_at = f_expires_at file,
                       fi_download_count = f_download_count file,
                       fi_max_downloads = f_max_downloads file,
                       fi_has_password = truthy_str (f_password_hash file),
                       fi_is_expired = isExpired now2 (f_expires_at file),
                       fi_is_download_limit_reached =
                         (\<not> fst accessibility
                          \<and> snd accessibility = Some ''download_limit_reached'') \<rparr>) 200))"

text \<open>
  The part that \<open>POST /download/:id\<close> and \<open>GET /download/:id\<close> share word for word:
  fetch the object, count the download, and then build the response. When
  \<open>fileResponse\<close> throws, the handler's \<open>catch\<close> answers 500 after the counter has
  been incremented.
\<close>

definition download_fetch :: "FileRecord \<Rightarrow> string \<Rightarrow> world \<Rightarrow> response \<times> world" where
  "download_fetch file fileId w =
     (case downloadFile (f_filename file) w of
        None \<Rightarrow> (errorResponse FILE_NOT_FOUND (Message ''File not found in storage'') 404, w)
      | Some fileObject \<Rightarrow>
          (let w1 = incrementDownloadCount fileId w
           in if fileResponse_accepted (f_original_filename file) (f_mime_type file)
              then (fileResponse (body fileObject) (f_original_filename file)
                      (f_mime_type file) (f_size file), w1)
              else (errorResponse INTERNAL_ERROR (Message ''Failed to download file'') 500, w1)))"

definition download_post ::
  "timestamp \<Rightarrow> PasswordBody json_body \<Rightarrow> string \<Rightarrow> world \<Rightarrow> response \<times> world" where
  "download_post now json fileId w =
     (case passwordSchema json of
        None \<Rightarrow> (errorResponse VALIDATION_ERROR (Message ''Invalid request parameters'') 400, w)
      | Some password \<Rightarrow>
     (case getFile fileId w of
        None \<Rightarrow> (errorResponse FILE_NOT_FOUND (Message ''File not found'') 404, w)
      | Some file \<Rightarrow>
     (let accessibility = isFileAccessible now file;
          checkPassword =
            (if truthy_str (f_password_hash file)
             then (if \<not> truthy_str password
                   then (errorResponse INVALID_PASSWORD (Message ''Password required'') 401, w)
                   else if \<not> verifyPassword (the password) (the (f_password_hash file))
                   then (errorResponse INVALID_PASSWORD (Message ''Invalid password'') 401, w)
                   else download_fetch file fileId w)
             else download_fetch file fileId w)
      in if \<not> fst accessibility
         then (if snd accessibility = Some ''expired''
               then (errorResponse FILE_EXPIRED (Message ''File has expired'') 410, w)
               else if snd accessibility = Some ''download_limit_reached''
               then (errorResponse DOWNLOAD_LIMIT_REACHED (Message ''Download limit reached'') 403, w)
               else checkPassword)
         else checkPassword)))"

text \<open>
  \<open>return c.redirect(location, 302)\<close> inside the handler's \<open>try\<close>: setting a
  \<open>Location\<close> that is not a legal header value throws, and the \<open>catch\<close> answers 500
  with the handler's failure message.
\<close>

definition c_redirect :: "string \<Rightarrow> string \<Rightarrow> response" where
  "c_redirect location failure =
     (if legalHeaderValue location then redirect location 302
      else errorResponse INTERNAL_ERROR (Message failure) 500)"

definition frontendUrl :: "Env \<Rightarrow> string" where
  "frontendUrl env = (if CORS_ORIGIN env = ''*'' then ''http://localhost:3001'' else CORS_ORIGIN env)"

definition download_get ::
  "Env \<Rightarrow> timestamp \<Rightarrow> jsstring option \<Rightarrow> string \<Rightarrow> world \<Rightarrow> response \<times> world" where
  "download_get env now password fileId w =
     (case getFile fileId w of
        None \<Rightarrow> (errorResponse FILE_NOT_FOUND (Message ''File not found'') 404, w)
      | Some file \<Rightarrow>
     (let accessibility = isFileAccessible now file;
          checkPassword =
            (if truthy_str (f_password_hash file)
             then (if \<not> truthy_str password
                   then (c_redirect (frontendUrl env @ ''/download/'' @ fileId)
                      ''Failed to download file'', w)
                   else if \<not> verifyPassword (the password) (the (f_password_hash file))
                   then (c_redirect (frontendUrl env @ ''/download/'' @ fileId
                                     @ ''?error=invalid_password'')
                      ''Failed to download file'', w)
                   else download_fetch file fileId w)
             else download_fetch file fileId w)
      in if \<not> fst accessibility
         then (if snd accessibility = Some ''expired''
               then (c_redirect (frontendUrl env @ ''/download/'' @ fileId @ ''?error=expired'')
                      ''Failed to download file'', w)
               else if snd accessibility = Some ''download_limit_reached''
               then (c_redirect (frontendUrl env @ ''/download/'' @ fileId
                                 @ ''?error=download_limit_reached'')
                      ''Failed to download file'', w)
               else checkPassword)
         else checkPassword))"

subsection \<open>Text shares (handlers/text.ts)\<close>

definition text_create ::
  "Env \<Rightarrow> Request \<Rightarrow> (nat \<Rightarrow> byte) \<Rightarrow> timestamp \<Rightarrow> timestamp
     \<Rightarrow> CreateTextShareBody json_body \<Rightarrow> world \<Rightarrow> response \<times> world" where
  "text_create env request rndId nowExpiry nowCreate json w =
     (case json of
        Unparsable \<Rightarrow> (errorResponse INTERNAL_ERROR (Message ''Failed to create text share'') 500, w)
      | NotAnObject \<Rightarrow>
          (errorResponse VALIDATION_ERROR (Message ''Invalid request parameters'') 400, w)
      | Object obj \<Rightarrow>
     (case createTextShareSchema obj of
        None \<Rightarrow> (errorResponse VALIDATION_ERROR (Message ''Invalid request parameters'') 400, w)
      | Some req \<Rightarrow>
     (let maxExpiryHours = MAX_EXPIRY_HOURS env
      in
      if \<not> isValidExpiryHours (cr_expiry_hours req) maxExpiryHours
      then (errorResponse VALIDATION_ERROR (ExpiryHoursBetween1And maxExpiryHours) 400, w)
      else
     (let ip = clientIP request;
          expiresAt = calculateExpiryDate nowExpiry (cr_expiry_hours req);
          passwordHash = (if truthy_str (cr_password req)
                          then Some (hashPassword (the (cr_password req))) else None)
      in
      case createTextShare rndId nowCreate
             \<lparr> ct_title = cr_title req, ct_content = cr_content req,
               ct_language = Some (cr_language req), ct_upload_ip = Some ip,
               ct_expires_at = expiresAt, ct_max_views = cr_max_views req,
               ct_password = passwordHash \<rparr> w of
        Inl e \<Rightarrow> (errorResponse INTERNAL_ERROR (Message ''Failed to create text share'') 500, w)
      | Inr (textShare, w1) \<Rightarrow>
          (successResponse
             (TextShareCreate \<lparr> tc_id = t_id textShare, tc_title = t_title textShare,
                                tc_expires_at = expiresAt,
                                tc_view_url = origin request @ ''/api/text/view/'' @ t_id textShare,
                                tc_has_password = truthy_str (cr_password req) \<rparr>) 201, w1)))))"

definition text_info :: "timestamp \<Rightarrow> timestamp \<Rightarrow> string \<Rightarrow> world \<Rightarrow> response" where
  "text_info now1 now2 textShareId w =
     (case getTextShare textShareId w of
        None \<Rightarrow> errorResponse FILE_NOT_FOUND (Message ''Text share not found'') 404
      | Some textShare \<Rightarrow>
     (let accessibility = isTextShareAccessible now1 textShare
      in successResponse
           (TextShareInfo \<lparr> ti_id = t_id textShare, ti_title = t_title textShare,
                            ti_content = t_content textShare,
                            ti_language = t_language textShare,
                            ti_created_at = t_created_at textShare,
                            ti_expires_at = t_expires_at textShare,
                            ti_view_count = t_view_count textShare,
                            ti_max_views = t_max_views textShare,
                            ti_has_password = truthy_str (t_password_hash textShare),
                            ti_is_expired = isExpired now2 (t_expires_at textShare),
                            ti_is_view_limit_reached =
                              (\<not> fst accessibility
                               \<and> snd accessibility = Some ''view_limit_reached'') \<rparr>) 200))"

definition text_view_post ::
  "timestamp \<Rightarrow> PasswordBody json_body \<Rightarrow> string \<Rightarrow> world \<Rightarrow> response \<times> world" where
  "text_view_post now json textShareId w =
     (case passwordSchema json of
        None \<Rightarrow> (errorResponse VALIDATION_ERROR (Message ''Invalid request parameters'') 400, w)
      | Some password \<Rightarrow>
     (case getTextShare textShareId w of
        None \<Rightarrow> (errorResponse FILE_NOT_FOUND (Message ''Text share not found'') 404, w)
      | Some textShare \<Rightarrow>
     (let accessibility = isTextShareAccessible now textShare;
          view =
            (successResponse
               (TextShareInfo \<lparr> ti_id = t_id textShare, ti_title = t_title textShare,
                                ti_content = t_content textShare,
                                ti_language = t_language textShare,
                                ti_created_at = t_created_at textShare,
                                ti_expires_at = t_expires_at textShare,
                                ti_view_count = t_view_count textShare + 1,
                                ti_max_views = t_max_views textShare,
                                ti_has_password = truthy_str (t_password_hash textShare),
                                ti_is_expired = False,
                                ti_is_view_limit_reached =
                                  (if truthy_num (t_max_views textShare)
                                   then t_view_count textShare + 1 \<ge> the (t_max_views textShare)
                                   else False) \<rparr>) 200,
             incrementViewCount textShareId w);
          checkPassword =
            (if truthy_str (t_password_hash textShare)
             then (if \<not> truthy_str password
                   then (errorResponse INVALID_PASSWORD (Message ''Password required'') 401, w)
                   else if \<not> verifyPassword (the password) (the (t_password_hash textShare))
                   then (errorResponse INVALID_PASSWORD (Message ''Invalid password'') 401, w)
                   else view)
             else view)
      in if \<not> fst accessibility
         then (if snd accessibility = Some ''expired''
               then (errorResponse FILE_EXPIRED (Message ''Text share has expired'') 410, w)
               else if snd accessibility = Some ''view_limit_reached''
               then (errorResponse VIEW_LIMIT_REACHED (Message ''View limit reached'') 403, w)
               else checkPassword)
         else checkPassword)))"

definition text_view_get ::
  "Env \<Rightarrow> timestamp \<Rightarrow> jsstring option \<Rightarrow> string \<Rightarrow> world \<Rightarrow> response \<times> world" where
  "text_view_get env now password textShareId w =
     (case getTextShare textShareId w of
        None \<Rightarrow> (errorResponse FILE_NOT_FOUND (Message ''Text share not found'') 404, w)
      | Some textShare \<Rightarrow>
     (let accessibility = isTextShareAccessible now textShare;
          view = (textResponse (t_content textShare) ''text/plain'',
                  incrementViewCount textShareId w);
          checkPassword =
            (if truthy_str (t_password_hash textShare)
             then (if \<not> truthy_str password
                   then (c_redirect (frontendUrl env @ ''/text/'' @ textShareId)
                      ''Failed to view text share'', w)
                   else if \<not> verifyPassword (the password) (the (t_password_hash textShare))
                   then (c_redirect (frontendUrl env @ ''/text/'' @ textShareId
                                     @ ''?error=invalid_password'')
                      ''Failed to view text share'', w)
                   else view)
             else view)
      in if \<not> fst accessibility
         then (if snd accessibility = Some ''expired''
               then (c_redirect (frontendUrl env @ ''/text/'' @ textShareId @ ''?error=expired'')
                      ''Failed to view text share'', w)
               else if snd accessibility = Some ''view_limit_reached''
               then (c_redirect (frontendUrl env @ ''/text/'' @ textShareId
                                 @ ''?error=view_limit_reached'')
                      ''Failed to view text share'', w)
               else checkPassword)
         else checkPassword))"

subsection \<open>The scheduled job (index.ts)\<close>

text \<open>
  Every run soft-deletes the expired records of both tables; the run whose cron
  expression is \<open>0 2 * * *\<close> also reconciles the bucket, with
  \<^verbatim>\<open>SELECT id FROM files WHERE is_deleted = FALSE\<close> as the list of valid ids.
\<close>

definition scheduled :: "string \<Rightarrow> timestamp \<Rightarrow> timestamp \<Rightarrow> world \<Rightarrow> world" where
  "scheduled cron now1 now2 w =
     (let (expiredFiles, w1) = cleanupExpiredFiles now1 w;
          (expiredTextShares, w2) = cleanupExpiredTextShares now2 w1
      in if cron = ''0 2 * * *''
         then (let validFiles = filter (\<lambda>r. \<not> f_is_deleted r) (files w2);
                   validFileIds = map f_id validFiles;
                   (orphanedFiles, w3) = cleanupOrphanedFiles validFileIds w2
               in w3)
         else w2)"

section \<open>Concrete scenarios\<close>

text \<open>
  A deployment, a request and two bodies on which the handlers are evaluated below: an
  upload of \<open>notes.txt\<close> into a bucket that already holds one orphaned object, and a
  text share created with the password \<open>hunter2\<close>.
\<close>

definition example_env :: Env where
  "example_env = \<lparr> CORS_ORIGIN = ''*'', MAX_FILE_SIZE = Num 104857600, MAX_EXPIRY_HOURS = Num 168 \<rparr>"

definition example_request :: Request where
  "example_request = \<lparr> origin = ''https://worker.example'', clientIP = ''203.0.113.7'' \<rparr>"

definition example_form :: UploadForm where
  "example_form =
     \<lparr> form_file = Some \<lparr> file_name = ''notes.txt'', file_type = ''text/plain'',
                            file_content = [0x68, 0x69] \<rparr>,
       form_expiry_hours = Numeric 24, form_max_downloads = Missing, form_password = None \<rparr>"

definition empty_world :: world where
  "empty_world = \<lparr> files = [], text_shares = [], bucket = [] \<rparr>"

definition orphan_world :: world where
  "orphan_world =
     \<lparr> files = [], text_shares = [],
       bucket = [(''ZZZZZZZZZZZZZZZZ.bin'', \<lparr> body = [0x00], customMetadata = [] \<rparr>)] \<rparr>"

definition uploaded_world :: world where
  "uploaded_world =
     snd (upload_post example_env example_request (\<lambda>i. 0) (\<lambda>i. 1) 0 0 (Some example_form)
            orphan_world)"

definition example_text_body :: CreateTextShareBody where
  "example_text_body =
     \<lparr> cb_title = None,
       cb_content = Some (JStr [0x74, 0x6F, 0x70, 0x20, 0x73, 0x65, 0x63, 0x72, 0x65, 0x74]),
       cb_language = None, cb_expiry_hours = Some (JNum 24), cb_max_views = None,
       cb_password = Some (JStr [0x68, 0x75, 0x6E, 0x74, 0x65, 0x72, 0x32]) \<rparr>"

definition protected_world :: world where
  "protected_world =
     snd (text_create example_env example_request (\<lambda>i. 1) 0 0 (Object example_text_body)
            empty_world)"

text \<open>
  A file record and a text share that are protected by the password \<open>hunter2\<close> and
  have used up their limit of one, and the inputs of two records with a limit of two.
\<close>

definition guarded_world :: world where
  "guarded_world =
     \<lparr> files =
         [\<lparr> f_id = ''BBBBBBBBBBBB'', f_filename = ''AAAAAAAAAAAAAAAA.txt'',
            f_original_filename = ''notes.txt'', f_mime_type = ''text/plain'', f_size = 2,
            f_upload_ip = Some ''203.0.113.7'', f_created_at = 0, f_expires_at = 86400000,
            f_download_count = 1, f_max_downloads = Some 1,
            f_password_hash = Some (hashPassword [0x68, 0x75, 0x6E, 0x74, 0x65, 0x72, 0x32]),
            f_is_deleted = False \<rparr>],
       text_shares =
         [\<lparr> t_id = ''CCCCCCCCCCCC'', t_title = None,
            t_content = [0x74, 0x6F, 0x70, 0x20, 0x73, 0x65, 0x63, 0x72, 0x65, 0x74],
            t_language = [0x74, 0x65, 0x78, 0x74], t_upload_ip = Some ''203.0.113.7'',
            t_created_at = 0, t_expires_at = 86400000, t_view_count = 1, t_max_views = Some 1,
            t_password_hash = Some (hashPassword [0x68, 0x75, 0x6E, 0x74, 0x65, 0x72, 0x32]),
            t_is_deleted = False \<rparr>],
       bucket = [(''AAAAAAAAAAAAAAAA.txt'', \<lparr> body = [0x68, 0x69], customMetadata = [] \<rparr>)] \<rparr>"

definition limited_input :: CreateFileInput where
  "limited_input =
     \<lparr> cf_filename = ''AAAAAAAAAAAAAAAA.txt'', cf_original_filename = ''notes.txt'',
       cf_mime_type = ''text/plain'', cf_size = 2, cf_upload_ip = Some ''203.0.113.7'',
       cf_expires_at = 86400000, cf_max_downloads = Some 2, cf_password = None \<rparr>"

definition limited_text_input :: CreateTextShareInput where
  "limited_text_input =
     \<lparr> ct_title = None,
       ct_content = [0x74, 0x6F, 0x70, 0x20, 0x73, 0x65, 0x63, 0x72, 0x65, 0x74],
       ct_language = None, ct_upload_ip = Some ''203.0.113.7'', ct_expires_at = 86400000,
       ct_max_views = Some 2,
       ct_password = Some (hashPassword [0x68, 0x75, 0x6E, 0x74, 0x65, 0x72, 0x32]) \<rparr>"

text \<open>
  Requests at the edge of the accepted bounds: an upload whose expiry field is \<open>0\<close>, a
  text share that asks for 0 hours, an empty file.
\<close>

definition zero_expiry_form :: UploadForm where
  "zero_expiry_form = example_form\<lparr>form_expiry_hours := Numeric 0\<rparr>"

definition zero_expiry_body :: CreateTextShareBody where
  "zero_expiry_body = example_text_body\<lparr>cb_expiry_hours := Some (JNum 0), cb_password := None\<rparr>"

definition empty_file_form :: UploadForm where
  "empty_file_form =
     example_form\<lparr>form_file := Some \<lparr> file_name = ''empty.txt'', file_type = ''text/plain'',
                                        file_content = [] \<rparr>\<rparr>"



section \<open>Notions used in the statements\<close>

text \<open>A response that carries the content: the redemption was granted.\<close>

definition granted :: "response \<Rightarrow> bool" where
  "granted r = (case r of fileResponse b n m s \<Rightarrow> True | textResponse t c \<Rightarrow> True
                | successResponse p s \<Rightarrow> True | _ \<Rightarrow> False)"

text \<open>Redemptions one after the other, each at its own time, on the stores the previous left.\<close>

fun download_seq ::
  "timestamp list \<Rightarrow> PasswordBody json_body \<Rightarrow> string \<Rightarrow> world \<Rightarrow> response list \<times> world" where
  "download_seq [] json fileId w = ([], w)"
| "download_seq (now # nows) json fileId w =
     (let (r, w1) = download_post now json fileId w;
          (rs, w2) = download_seq nows json fileId w1
      in (r # rs, w2))"

fun text_view_seq ::
  "timestamp list \<Rightarrow> PasswordBody json_body \<Rightarrow> string \<Rightarrow> world \<Rightarrow> response list \<times> world" where
  "text_view_seq [] json textShareId w = ([], w)"
| "text_view_seq (now # nows) json textShareId w =
     (let (r, w1) = text_view_post now json textShareId w;
          (rs, w2) = text_view_seq nows json textShareId w1
      in (r # rs, w2))"

text \<open>
  The operations that change the stores: the mutators of \<open>DatabaseService\<close> and of
  \<open>StorageService\<close>. A failed \<open>INSERT\<close> changes nothing. Every handler and the
  scheduled job change the stores through these operations only.
\<close>

datatype store_op =
    OpCreateFile "nat \<Rightarrow> byte" timestamp CreateFileInput
  | OpIncrementDownloadCount string
  | OpDeleteFile string
  | OpCreateTextShare "nat \<Rightarrow> byte" timestamp CreateTextShareInput
  | OpIncrementViewCount string
  | OpDeleteTextShare string
  | OpCleanupExpiredFiles timestamp
  | OpCleanupExpiredTextShares timestamp
  | OpUploadFile string "byte list" "(string \<times> string) list option"
  | OpStorageDeleteFile string
  | OpCleanupOrphanedFiles "string list"

fun apply_op :: "store_op \<Rightarrow> world \<Rightarrow> world" where
  "apply_op (OpCreateFile rnd now input) w =
     (case createFile rnd now input w of Inl e \<Rightarrow> w | Inr (created, w') \<Rightarrow> w')"
| "apply_op (OpIncrementDownloadCount ident) w = incrementDownloadCount ident w"
| "apply_op (OpDeleteFile ident) w = deleteFile ident w"
| "apply_op (OpCreateTextShare rnd now input) w =
     (case createTextShare rnd now input w of Inl e \<Rightarrow> w | Inr (created, w') \<Rightarrow> w')"
| "apply_op (OpIncrementViewCount ident) w = incrementViewCount ident w"
| "apply_op (OpDeleteTextShare ident) w = deleteTextShare ident w"
| "apply_op (OpCleanupExpiredFiles now) w = snd (cleanupExpiredFiles now w)"
| "apply_op (OpCleanupExpiredTextShares now) w = snd (cleanupExpiredTextShares now w)"
| "apply_op (OpUploadFile key data metadata) w = uploadFile key data metadata w"
| "apply_op (OpStorageDeleteFile key) w = storage_deleteFile key w"
| "apply_op (OpCleanupOrphanedFiles validFileIds) w = snd (cleanupOrphanedFiles validFileIds w)"

text \<open>
  The table has a row with this id, and every row with this id is soft-deleted.
\<close>

definition file_hidden :: "string \<Rightarrow> world \<Rightarrow> bool" where
  "file_hidden ident w =
     (ident \<in> set (map f_id (files w))
      \<and> list_all (\<lambda>r. f_id r = ident \<longrightarrow> f_is_deleted r) (files w))"

definition text_hidden :: "string \<Rightarrow> world \<Rightarrow> bool" where
  "text_hidden ident w =
     (ident \<in> set (map t_id (text_shares w))
      \<and> list_all (\<lambda>r. t_id r = ident \<longrightarrow> t_is_deleted r) (text_shares w))"

text \<open>
  The form in which \<open>createFile\<close> and \<open>createTextShare\<close> store a row: \<open>x || null\<close>
  leaves a limit that is \<open>NULL\<close> or non-zero and a hash that is \<open>NULL\<close> or non-empty.
\<close>

definition stored_rows_ok :: "world \<Rightarrow> bool" where
  "stored_rows_ok w =
     (list_all (\<lambda>r. f_max_downloads r \<noteq> Some 0 \<and> f_password_hash r \<noteq> Some []) (files w)
      \<and> list_all (\<lambda>r. t_max_views r \<noteq> Some 0 \<and> t_password_hash r \<noteq> Some []) (text_shares w))"

section \<open>Properties\<close>

subsection \<open>The digest and its hexadecimal form\<close>

lemma length_sha_round: "length (sha_round v kw) = length v"
  by (cases "(v, kw)" rule: sha_round.cases) (simp_all add: Let_def)

lemma length_foldl_sha_round: "length (foldl sha_round v kws) = length v"
  by (induction kws arbitrary: v) (simp_all add: length_sha_round)

lemma length_compress: "length (compress h blk) = length h"
  by (simp add: compress_def length_foldl_sha_round)

lemma length_foldl_compress: "length (foldl compress h bs) = length h"
  by (induction bs arbitrary: h) (simp_all add: length_compress)

lemma length_concat_const:
  "(\<And>x. x \<in> set xs \<Longrightarrow> length (f x) = n) \<Longrightarrow> length (concat (map f xs)) = n * length xs"
  by (induction xs) simp_all

lemma length_sha256: "length (sha256 m) = 32"
  by (simp add: sha256_def length_concat_const [where n = 4] bytes_of_word_def
      length_foldl_compress H0_def)

text \<open>A password hash is 64 characters long, as the unit test expects; so it is truthy.\<close>

lemma length_hashPassword: "length (hashPassword p) = 64"
  by (simp add: hashPassword_def length_concat_const [where n = 2] hex2_def length_sha256)

lemma hashPassword_not_Nil: "hashPassword p \<noteq> []"
  using length_hashPassword [of p] by auto

lemma distinct_hex_digits: "distinct hex_digits"
  by (simp add: hex_digits_def)

lemma length_hex_digits: "length hex_digits = 16"
  by (simp add: hex_digits_def)

lemma hex2_inj: "hex2 a = hex2 b \<Longrightarrow> a = b"
proof -
  assume h: "hex2 a = hex2 b"
  have "unat a < 256" "unat b < 256"
    using unsigned_less [of a] unsigned_less [of b] by simp_all
  then have la: "unat a div 16 < 16" "unat b div 16 < 16"
    by simp_all
  have lm: "unat a mod 16 < 16" "unat b mod 16 < 16" by simp_all
  from h have "hex_digits ! (unat a div 16) = hex_digits ! (unat b div 16)"
    and "hex_digits ! (unat a mod 16) = hex_digits ! (unat b mod 16)"
    by (simp_all add: hex2_def)
  then have "unat a div 16 = unat b div 16" and "unat a mod 16 = unat b mod 16"
    using la lm distinct_hex_digits length_hex_digits
    by (simp_all add: nth_eq_iff_index_eq)
  then have "unat a = unat b"
    by (metis div_mult_mod_eq)
  then show "a = b" by (simp add: word_unat_eq_iff)
qed

lemma hex_inj: "concat (map hex2 xs) = concat (map hex2 ys) \<Longrightarrow> xs = ys"
proof (induction xs arbitrary: ys)
  case Nil
  then show ?case by (cases ys) (simp_all add: hex2_def)
next
  case (Cons x xs)
  then obtain y ys' where ys: "ys = y # ys'" by (cases ys) (auto simp: hex2_def)
  have "length (hex2 x) = length (hex2 y)" by (simp add: hex2_def)
  with Cons.prems ys have "hex2 x = hex2 y" and "concat (map hex2 xs) = concat (map hex2 ys')"
    by simp_all
  with Cons.IH ys show ?case by (simp add: hex2_inj)
qed

text \<open>
  Claim C8, as amended. \<open>verifyPassword p (hashPassword p)\<close> is true for every password,
  and \<open>verifyPassword p2 (hashPassword p)\<close> is true exactly when the SHA-256 digests of
  the UTF-8 encodings of \<open>p2\<close> and \<open>p\<close> are equal; so it is false whenever the two
  digests differ. Distinct passwords need not have distinct digests.
\<close>

theorem verifyPassword_iff_digest:
  "verifyPassword p (hashPassword p)
   \<and> verifyPassword p2 (hashPassword p) = (sha256 (encode p2) = sha256 (encode p))"
  by (auto simp: verifyPassword_def hashPassword_def dest: hex_inj)

text \<open>
  The claim as stated fails: the two one-unit strings that consist of the unpaired
  surrogates U+D800 and U+DC00 are distinct, \<open>TextEncoder\<close> writes both as the bytes of
  U+FFFD, and each verifies against the hash of the other.
\<close>

theorem verifyPassword_distinct_counterexample:
  "[0xD800 :: 16 word] \<noteq> [0xDC00] \<and> verifyPassword [0xDC00] (hashPassword [0xD800])"
proof -
  have "encode [0xD800] = encode [0xDC00]"
    by (simp add: encode_def is_high_surrogate_def is_low_surrogate_def)
  then show ?thesis
    by (simp add: verifyPassword_def hashPassword_def)
qed

subsection \<open>Identifiers and storage keys\<close>

lemma generateId_16_zero: "generateId 16 (\<lambda>i. 0) = ''AAAAAAAAAAAAAAAA''"
  by (simp add: generateId_def chars_def upt_rec)

lemma generateId_12_one: "generateId 12 (\<lambda>i. 1) = ''BBBBBBBBBBBB''"
  by (simp add: generateId_def chars_def upt_rec)

lemma js_split_not_Nil: "js_split sep s \<noteq> []"
  by (induction s) (auto split: list.splits)

lemma js_split_no_sep: "sep \<notin> set s \<Longrightarrow> js_split sep s = [s]"
  by (induction s) auto

lemma length_generateId: "length (generateId n r) = n"
  by (simp add: generateId_def)

text \<open>
  Claim C6. For a non-empty file name that contains no dot, the claim (and the test
  \<open>should generate secure filenames\<close>) expects the bare 16-character identifier.
  The code takes the last piece of \<open>split('.')\<close>, which for a name without a dot is the
  whole name, so the whole name is appended as the extension: for \<open>test\<close> the result
  is the identifier followed by \<open>.test\<close>, 21 characters long.
\<close>

theorem generateSecureFilename_no_dot:
  "generateSecureFilename r ''test'' = generateId 16 r @ ''.test''
   \<and> length (generateSecureFilename r ''test'') = 21
   \<and> generateSecureFilename r ''test'' \<noteq> generateId 16 r"
  by (simp add: generateSecureFilename_def length_generateId)

subsection \<open>Reconciliation of the bucket\<close>

text \<open>
  The storage key that the upload handler mints starts with its own 16-character
  identifier, and the record gets another identifier of 12 characters.
\<close>

lemma generateId_no_dot: "CHR ''.'' \<notin> set (generateId n r)"
proof -
  have "CHR ''.'' \<notin> set chars" by (simp add: chars_def)
  moreover have "chars ! (k mod length chars) \<in> set chars" for k
    by (rule nth_mem) (simp add: chars_def)
  ultimately show ?thesis
    by (auto simp: generateId_def)
qed

lemma js_split_first:
  "sep \<notin> set a \<Longrightarrow> (case js_split sep (a @ sep # b) of [] \<Rightarrow> [] | p # ps \<Rightarrow> p) = a"
  by (induction a) (auto split: list.splits)

lemma generateSecureFilename_prefix:
  "(case js_split CHR ''.'' (generateSecureFilename r name) of [] \<Rightarrow> [] | p # ps \<Rightarrow> p)
     = generateId 16 r"
  using js_split_first [OF generateId_no_dot, of 16 r]
    js_split_no_sep [OF generateId_no_dot, of 16 r]
  by (simp add: generateSecureFilename_def Let_def)

text \<open>
  When no listed key has a valid prefix, \<open>cleanupOrphanedFiles\<close> deletes every listed
  object; and that is the case on every daily run over records with 12-character ids and
  keys with 16-character prefixes, so a run over a bucket of at most one page of objects
  leaves the bucket empty.
\<close>

lemma cleanupOrphanedFiles_loop_all:
  assumes "\<forall>object \<in> set objects.
             (case js_split CHR ''.'' (fst object) of [] \<Rightarrow> [] | p # ps \<Rightarrow> p) \<notin> set validFileIds"
  shows "cleanupOrphanedFiles_loop validFileIds objects n w =
           (n + int (length objects),
            w\<lparr>bucket := filter (\<lambda>kv. fst kv \<notin> set (map fst objects)) (bucket w)\<rparr>)"
  using assms
proof (induction objects arbitrary: n w)
  case Nil
  then show ?case by simp
next
  case (Cons object objects)
  then show ?case
    by (simp add: Let_def storage_deleteFile_def conj_commute cong: filter_cong)
qed

lemma cleanupOrphanedFiles_none_valid:
  assumes "\<forall>object \<in> set (bucket w).
             (case js_split CHR ''.'' (fst object) of [] \<Rightarrow> [] | p # ps \<Rightarrow> p) \<notin> set validFileIds"
    and "length (bucket w) \<le> 1000"
  shows "cleanupOrphanedFiles validFileIds w = (int (length (bucket w)), w\<lparr>bucket := []\<rparr>)"
proof -
  have l: "listFiles None 1000 w = bucket w"
    using assms(2) by (simp add: listFiles_def)
  have "filter (\<lambda>kv. fst kv \<notin> set (map fst (bucket w))) (bucket w) = []"
    by (simp add: filter_empty_conv)
  with cleanupOrphanedFiles_loop_all [of "bucket w" validFileIds 0 w] assms(1) l
  show ?thesis by (simp add: cleanupOrphanedFiles_def)
qed

lemma scheduled_daily_empties_bucket:
  assumes ids: "\<forall>r \<in> set (files w). length (f_id r) = 12"
    and keys: "\<forall>object \<in> set (bucket w).
             length (case js_split CHR ''.'' (fst object) of [] \<Rightarrow> [] | p # ps \<Rightarrow> p) = 16"
    and page: "length (bucket w) \<le> 1000"
  shows "bucket (scheduled ''0 2 * * *'' now1 now2 w) = []"
proof -
  let ?w2 = "snd (cleanupExpiredTextShares now2 (snd (cleanupExpiredFiles now1 w)))"
  let ?valid = "map f_id (filter (\<lambda>r. \<not> f_is_deleted r) (files ?w2))"
  have b: "bucket ?w2 = bucket w"
    by (simp add: cleanupExpiredTextShares_def cleanupExpiredFiles_def Let_def)
  have "\<forall>r \<in> set (files ?w2). length (f_id r) = 12"
    using ids by (auto simp: cleanupExpiredTextShares_def cleanupExpiredFiles_def Let_def)
  then have v: "\<forall>i \<in> set ?valid. length i = 12" by auto
  have "\<forall>object \<in> set (bucket ?w2).
          (case js_split CHR ''.'' (fst object) of [] \<Rightarrow> [] | p # ps \<Rightarrow> p) \<notin> set ?valid"
  proof
    fix object assume "object \<in> set (bucket ?w2)"
    with keys b have "length (case js_split CHR ''.'' (fst object) of [] \<Rightarrow> [] | p # ps \<Rightarrow> p) = 16"
      by simp
    with v show "(case js_split CHR ''.'' (fst object) of [] \<Rightarrow> [] | p # ps \<Rightarrow> p) \<notin> set ?valid"
      by fastforce
  qed
  from cleanupOrphanedFiles_none_valid [OF this] page b
  have "cleanupOrphanedFiles ?valid ?w2 = (int (length (bucket w)), ?w2\<lparr>bucket := []\<rparr>)"
    by simp
  then show ?thesis
    by (simp add: scheduled_def Let_def split_beta)
qed

text \<open>
  Claim C1. The bucket holds one orphaned object; \<open>notes.txt\<close> is uploaded, so that the
  bucket holds the orphan and the blob of one live record. The daily run of the scheduled
  job, one hour later, should delete the orphan alone. It deletes both: the list of valid
  ids holds the record's id (\<open>BBBBBBBBBBBB\<close>), \<open>cleanupOrphanedFiles\<close> compares it with
  the part of the storage key before the first dot (\<open>AAAAAAAAAAAAAAAA\<close>), which is a
  different random identifier, and the record stays live while its blob is gone.
\<close>

theorem scheduled_reconciliation_deletes_live_blob:
  "map fst (bucket uploaded_world) = [''AAAAAAAAAAAAAAAA.txt'', ''ZZZZZZZZZZZZZZZZ.bin'']
   \<and> map f_id (filter (\<lambda>r. \<not> f_is_deleted r)
         (files (scheduled ''0 2 * * *'' 3600000 3600000 uploaded_world))) = [''BBBBBBBBBBBB'']
   \<and> map f_filename (filter (\<lambda>r. \<not> f_is_deleted r)
         (files (scheduled ''0 2 * * *'' 3600000 3600000 uploaded_world))) = [''AAAAAAAAAAAAAAAA.txt'']
   \<and> bucket (scheduled ''0 2 * * *'' 3600000 3600000 uploaded_world) = []"
  by code_simp

subsection \<open>The informational read\<close>

lemma protected_world_eq:
  "protected_world =
     \<lparr> files = [],
       text_shares =
         [\<lparr> t_id = ''BBBBBBBBBBBB'', t_title = None,
            t_content = [0x74, 0x6F, 0x70, 0x20, 0x73, 0x65, 0x63, 0x72, 0x65, 0x74],
            t_language = [0x74, 0x65, 0x78, 0x74], t_upload_ip = Some ''203.0.113.7'',
            t_created_at = 0, t_expires_at = 86400000, t_view_count = 0, t_max_views = None,
            t_password_hash = Some (hashPassword [0x68, 0x75, 0x6E, 0x74, 0x65, 0x72, 0x32]),
            t_is_deleted = False \<rparr>],
       bucket = [] \<rparr>"
  by (simp add: protected_world_def empty_world_def text_create_def example_text_body_def
      example_env_def example_request_def createTextShareSchema_def createTextShare_def
      generateId_12_one calculateExpiryDate_def or_null_str_def or_null_num_def
      hashPassword_not_Nil Let_def)

text \<open>
  Claim C2. A text share is created with a password. \<open>POST /view/:id\<close> without a
  password answers 401 \<open>Password required\<close>, but \<open>GET /info/:id\<close>, which takes no
  password at all, answers with the record's \<open>content\<close> field next to
  \<open>has_password = true\<close>: the informational read of a text share includes the gated
  content.
\<close>

theorem text_info_reveals_gated_content:
  "text_info 1 1 ''BBBBBBBBBBBB'' protected_world =
     successResponse
       (TextShareInfo
          \<lparr> ti_id = ''BBBBBBBBBBBB'', ti_title = None,
            ti_content = [0x74, 0x6F, 0x70, 0x20, 0x73, 0x65, 0x63, 0x72, 0x65, 0x74],
            ti_language = [0x74, 0x65, 0x78, 0x74], ti_created_at = 0,
            ti_expires_at = 86400000, ti_view_count = 0, ti_max_views = None,
            ti_has_password = True, ti_is_expired = False,
            ti_is_view_limit_reached = False \<rparr>) 200
   \<and> fst (text_view_post 1 (Object \<lparr> pb_password = None \<rparr>) ''BBBBBBBBBBBB'' protected_world) =
     errorResponse INVALID_PASSWORD (Message ''Password required'') 401"
  by (simp add: protected_world_eq text_info_def text_view_post_def passwordSchema_def
      getTextShare_def isTextShareAccessible_def isExpired_def hashPassword_not_Nil Let_def)

subsection \<open>The access decision and the usage counter\<close>

lemma granted_errorResponse: "\<not> granted (errorResponse code msg status)"
  by (simp add: granted_def errorResponse_def)

lemma granted_c_redirect: "\<not> granted (c_redirect location failure)"
  by (simp add: granted_def errorResponse_def c_redirect_def)

lemma granted_content:
  "granted (fileResponse b n m s)" "granted (successResponse p st)" "granted (textResponse t c)"
  by (simp_all add: granted_def)

text \<open>
  What a redemption does to the stores: nothing, when it is not granted before the object
  is fetched; and the increment of the counter, when the object has been fetched, whether
  the response is then the file or the failure of \<open>fileResponse\<close>.
\<close>

lemma download_fetch_cases:
  "download_fetch file fileId w = (r, w') \<Longrightarrow>
     (granted r \<and> w' = incrementDownloadCount fileId w
        \<and> fileResponse_accepted (f_original_filename file) (f_mime_type file))
     \<or> (r = errorResponse INTERNAL_ERROR (Message ''Failed to download file'') 500
        \<and> w' = incrementDownloadCount fileId w
        \<and> \<not> fileResponse_accepted (f_original_filename file) (f_mime_type file))
     \<or> (\<not> granted r \<and> w' = w)"
  by (auto simp: download_fetch_def granted_content granted_errorResponse Let_def
      split: option.splits if_splits)

lemma download_post_cases:
  "download_post now json fileId w = (r, w') \<Longrightarrow>
     (granted r \<and> w' = incrementDownloadCount fileId w)
     \<or> (r = errorResponse INTERNAL_ERROR (Message ''Failed to download file'') 500
        \<and> w' = incrementDownloadCount fileId w)
     \<or> (\<not> granted r \<and> w' = w)"
  unfolding download_post_def Let_def
  by (auto split: option.splits if_splits dest!: download_fetch_cases
      simp: granted_errorResponse)

lemma download_get_cases:
  "download_get env now password fileId w = (r, w') \<Longrightarrow>
     (granted r \<and> w' = incrementDownloadCount fileId w)
     \<or> (r = errorResponse INTERNAL_ERROR (Message ''Failed to download file'') 500
        \<and> w' = incrementDownloadCount fileId w)
     \<or> (\<not> granted r \<and> w' = w)"
  unfolding download_get_def Let_def
  by (auto split: option.splits if_splits dest!: download_fetch_cases
      simp: granted_errorResponse granted_c_redirect)

lemma text_view_post_cases:
  "text_view_post now json textShareId w = (r, w') \<Longrightarrow>
     (granted r \<and> w' = incrementViewCount textShareId w) \<or> (\<not> granted r \<and> w' = w)"
  unfolding text_view_post_def Let_def
  by (auto split: option.splits if_splits simp: granted_content granted_errorResponse)

lemma text_view_get_cases:
  "text_view_get env now password textShareId w = (r, w') \<Longrightarrow>
     (granted r \<and> w' = incrementViewCount textShareId w) \<or> (\<not> granted r \<and> w' = w)"
  unfolding text_view_get_def Let_def
  by (auto split: option.splits if_splits
      simp: granted_content granted_errorResponse granted_c_redirect)

lemma download_post_order:
  assumes "passwordSchema json = Some password"
    and "getFile fileId w = Some file"
    and "f_max_downloads file \<noteq> Some 0" and "f_password_hash file \<noteq> Some []"
  shows "download_post now json fileId w =
     (if now > f_expires_at file
      then (errorResponse FILE_EXPIRED (Message ''File has expired'') 410, w)
      else if (case f_max_downloads file of None \<Rightarrow> False | Some n \<Rightarrow> f_download_count file \<ge> n)
      then (errorResponse DOWNLOAD_LIMIT_REACHED (Message ''Download limit reached'') 403, w)
      else if f_password_hash file \<noteq> None \<and> (password = None \<or> password = Some [])
      then (errorResponse INVALID_PASSWORD (Message ''Password required'') 401, w)
      else if f_password_hash file \<noteq> None
              \<and> \<not> verifyPassword (the password) (the (f_password_hash file))
      then (errorResponse INVALID_PASSWORD (Message ''Invalid password'') 401, w)
      else download_fetch file fileId w)"
  using assms
  by (cases "f_max_downloads file"; cases "f_password_hash file"; cases password)
     (simp_all add: download_post_def isFileAccessible_def isExpired_def Let_def)

lemma text_view_post_order:
  assumes "passwordSchema json = Some password"
    and "getTextShare textShareId w = Some textShare"
    and "t_max_views textShare \<noteq> Some 0" and "t_password_hash textShare \<noteq> Some []"
  shows "\<exists>view. text_view_post now json textShareId w =
     (if now > t_expires_at textShare
      then (errorResponse FILE_EXPIRED (Message ''Text share has expired'') 410, w)
      else if (case t_max_views textShare of None \<Rightarrow> False | Some n \<Rightarrow> t_view_count textShare \<ge> n)
      then (errorResponse VIEW_LIMIT_REACHED (Message ''View limit reached'') 403, w)
      else if t_password_hash textShare \<noteq> None \<and> (password = None \<or> password = Some [])
      then (errorResponse INVALID_PASSWORD (Message ''Password required'') 401, w)
      else if t_password_hash textShare \<noteq> None
              \<and> \<not> verifyPassword (the password) (the (t_password_hash textShare))
      then (errorResponse INVALID_PASSWORD (Message ''Invalid password'') 401, w)
      else (successResponse (TextShareInfo view) 200, incrementViewCount textShareId w))"
  using assms
  by (cases "t_max_views textShare"; cases "t_password_hash textShare"; cases password)
     (simp_all add: text_view_post_def isTextShareAccessible_def isExpired_def Let_def)

text \<open>
  Claim C3. For a request with a well-formed body and a record that the lookup returns,
  \<open>POST /download/:id\<close> and \<open>POST /view/:id\<close> decide by the first check that
  matches, in the order expiry, usage limit, password required, password invalid: an expired
  record answers \<open>FILE_EXPIRED\<close> whatever the password and the counter are, and a
  record that is not expired and has reached its limit answers
  \<open>DOWNLOAD_LIMIT_REACHED\<close> (\<open>VIEW_LIMIT_REACHED\<close>) whatever the password is. Only when
  no check matches is the content fetched. The two side conditions on the record are the
  form in which \<open>createFile\<close> and \<open>createTextShare\<close> store every row
  (\<open>stored_rows_well_formed\<close> below): a limit is \<open>NULL\<close> or non-zero, a hash is
  \<open>NULL\<close> or non-empty. A password counts as absent when it is missing or empty.
\<close>

theorem access_checks_in_order:
  "(passwordSchema json = Some password \<and> getFile fileId w = Some file
      \<and> f_max_downloads file \<noteq> Some 0 \<and> f_password_hash file \<noteq> Some [] \<longrightarrow>
    download_post now json fileId w =
     (if now > f_expires_at file
      then (errorResponse FILE_EXPIRED (Message ''File has expired'') 410, w)
      else if (case f_max_downloads file of None \<Rightarrow> False | Some n \<Rightarrow> f_download_count file \<ge> n)
      then (errorResponse DOWNLOAD_LIMIT_REACHED (Message ''Download limit reached'') 403, w)
      else if f_password_hash file \<noteq> None \<and> (password = None \<or> password = Some [])
      then (errorResponse INVALID_PASSWORD (Message ''Password required'') 401, w)
      else if f_password_hash file \<noteq> None
              \<and> \<not> verifyPassword (the password) (the (f_password_hash file))
      then (errorResponse INVALID_PASSWORD (Message ''Invalid password'') 401, w)
      else download_fetch file fileId w))
   \<and> (passwordSchema json = Some password \<and> getTextShare textShareId w = Some textShare
      \<and> t_max_views textShare \<noteq> Some 0 \<and> t_password_hash textShare \<noteq> Some [] \<longrightarrow>
    (\<exists>view. text_view_post now json textShareId w =
     (if now > t_expires_at textShare
      then (errorResponse FILE_EXPIRED (Message ''Text share has expired'') 410, w)
      else if (case t_max_views textShare of None \<Rightarrow> False | Some n \<Rightarrow> t_view_count textShare \<ge> n)
      then (errorResponse VIEW_LIMIT_REACHED (Message ''View limit reached'') 403, w)
      else if t_password_hash textShare \<noteq> None \<and> (password = None \<or> password = Some [])
      then (errorResponse INVALID_PASSWORD (Message ''Password required'') 401, w)
      else if t_password_hash textShare \<noteq> None
              \<and> \<not> verifyPassword (the password) (the (t_password_hash textShare))
      then (errorResponse INVALID_PASSWORD (Message ''Invalid password'') 401, w)
      else (successResponse (TextShareInfo view) 200, incrementViewCount textShareId w))))"
  using download_post_order text_view_post_order by blast

lemma guarded_getFile:
  "getFile ''BBBBBBBBBBBB'' guarded_world = Some (hd (files guarded_world))"
  by (simp add: getFile_def guarded_world_def)

lemma guarded_getTextShare:
  "getTextShare ''CCCCCCCCCCCC'' guarded_world = Some (hd (text_shares guarded_world))"
  by (simp add: getTextShare_def guarded_world_def)

theorem access_checks_in_order_witness:
  "download_post 86400001 (Object \<lparr> pb_password = None \<rparr>) ''BBBBBBBBBBBB'' guarded_world =
     (errorResponse FILE_EXPIRED (Message ''File has expired'') 410, guarded_world)
   \<and> download_post 5 (Object \<lparr> pb_password = None \<rparr>) ''BBBBBBBBBBBB'' guarded_world =
     (errorResponse DOWNLOAD_LIMIT_REACHED (Message ''Download limit reached'') 403, guarded_world)
   \<and> text_view_post 86400001 (Object \<lparr> pb_password = None \<rparr>) ''CCCCCCCCCCCC'' guarded_world =
     (errorResponse FILE_EXPIRED (Message ''Text share has expired'') 410, guarded_world)
   \<and> text_view_post 5 (Object \<lparr> pb_password = None \<rparr>) ''CCCCCCCCCCCC'' guarded_world =
     (errorResponse VIEW_LIMIT_REACHED (Message ''View limit reached'') 403, guarded_world)"
proof -
  have s: "passwordSchema (Object \<lparr> pb_password = None \<rparr>) = Some None"
    by (simp add: passwordSchema_def)
  have f: "f_max_downloads (hd (files guarded_world)) \<noteq> Some 0"
    "f_password_hash (hd (files guarded_world)) \<noteq> Some []"
    "f_expires_at (hd (files guarded_world)) = 86400000"
    "f_max_downloads (hd (files guarded_world)) = Some 1"
    "f_download_count (hd (files guarded_world)) = 1"
    by (simp_all add: guarded_world_def hashPassword_not_Nil)
  have t: "t_max_views (hd (text_shares guarded_world)) \<noteq> Some 0"
    "t_password_hash (hd (text_shares guarded_world)) \<noteq> Some []"
    "t_expires_at (hd (text_shares guarded_world)) = 86400000"
    "t_max_views (hd (text_shares guarded_world)) = Some 1"
    "t_view_count (hd (text_shares guarded_world)) = 1"
    by (simp_all add: guarded_world_def hashPassword_not_Nil)
  show ?thesis
    using access_checks_in_order [of "Object \<lparr> pb_password = None \<rparr>" None "''BBBBBBBBBBBB''"
        guarded_world "hd (files guarded_world)" 86400001 "''CCCCCCCCCCCC''"
        "hd (text_shares guarded_world)"]
      access_checks_in_order [of "Object \<lparr> pb_password = None \<rparr>" None "''BBBBBBBBBBBB''"
        guarded_world "hd (files guarded_world)" 5 "''CCCCCCCCCCCC''"
        "hd (text_shares guarded_world)"]
    by (simp add: s f t guarded_getFile guarded_getTextShare)
qed

lemma download_fetch_missing_blob:
  "downloadFile (f_filename file) w = None \<Longrightarrow>
     download_fetch file fileId w =
       (errorResponse FILE_NOT_FOUND (Message ''File not found in storage'') 404, w)"
  by (simp add: download_fetch_def)

lemma download_post_missing_blob:
  "download_post now json fileId w = (r, w') \<Longrightarrow> getFile fileId w = Some file \<Longrightarrow>
     downloadFile (f_filename file) w = None \<Longrightarrow> \<not> granted r \<and> w' = w"
  unfolding download_post_def Let_def
  by (auto split: option.splits if_splits
      simp: granted_errorResponse download_fetch_missing_blob)

lemma download_get_missing_blob:
  "download_get env now password fileId w = (r, w') \<Longrightarrow> getFile fileId w = Some file \<Longrightarrow>
     downloadFile (f_filename file) w = None \<Longrightarrow> \<not> granted r \<and> w' = w"
  unfolding download_get_def Let_def
  by (auto split: option.splits if_splits
      simp: granted_errorResponse granted_c_redirect download_fetch_missing_blob)


lemma getFile_incrementDownloadCount:
  "getFile i (incrementDownloadCount i w) =
     map_option (\<lambda>f. f\<lparr>f_download_count := f_download_count f + 1\<rparr>) (getFile i w)"
proof -
  have "find (\<lambda>r. f_id r = i \<and> \<not> f_is_deleted r)
          (map (\<lambda>r. if f_id r = i then r\<lparr>f_download_count := f_download_count r + 1\<rparr> else r) xs)
        = map_option (\<lambda>f. f\<lparr>f_download_count := f_download_count f + 1\<rparr>)
            (find (\<lambda>r. f_id r = i \<and> \<not> f_is_deleted r) xs)" for xs
    by (induction xs) simp_all
  then show ?thesis by (simp add: getFile_def incrementDownloadCount_def)
qed

lemma getTextShare_incrementViewCount:
  "getTextShare i (incrementViewCount i w) =
     map_option (\<lambda>t. t\<lparr>t_view_count := t_view_count t + 1\<rparr>) (getTextShare i w)"
proof -
  have "find (\<lambda>r. t_id r = i \<and> \<not> t_is_deleted r)
          (map (\<lambda>r. if t_id r = i then r\<lparr>t_view_count := t_view_count r + 1\<rparr> else r) xs)
        = map_option (\<lambda>t. t\<lparr>t_view_count := t_view_count t + 1\<rparr>)
            (find (\<lambda>r. t_id r = i \<and> \<not> t_is_deleted r) xs)" for xs
    by (induction xs) simp_all
  then show ?thesis by (simp add: getTextShare_def incrementViewCount_def)
qed

lemma download_post_allow:
  assumes "passwordSchema json = Some password"
    and "getFile fileId w = Some file"
    and "f_max_downloads file = Some n" and "f_download_count file < n"
    and "now \<le> f_expires_at file"
    and "f_password_hash file = None
         \<or> (\<exists>p. password = Some p \<and> p \<noteq> [] \<and> verifyPassword p (the (f_password_hash file)))"
    and "downloadFile (f_filename file) w = Some obj"
    and "fileResponse_accepted (f_original_filename file) (f_mime_type file)"
  shows "download_post now json fileId w =
           (fileResponse (body obj) (f_original_filename file) (f_mime_type file) (f_size file),
            incrementDownloadCount fileId w)"
  using assms
  by (cases "f_password_hash file")
     (auto simp: download_post_def isFileAccessible_def isExpired_def Let_def download_fetch_def)

lemma download_post_limit:
  assumes "passwordSchema json = Some password"
    and "getFile fileId w = Some file"
    and "f_max_downloads file = Some n" and "n \<noteq> 0" and "f_download_count file \<ge> n"
    and "now \<le> f_expires_at file"
  shows "download_post now json fileId w =
           (errorResponse DOWNLOAD_LIMIT_REACHED (Message ''Download limit reached'') 403, w)"
  using assms
  by (auto simp: download_post_def isFileAccessible_def isExpired_def Let_def)

lemma download_seq_counts:
  assumes "passwordSchema json = Some password"
    and "getFile fileId w = Some frec"
    and "f_max_downloads frec = Some n"
    and "f_download_count frec + int (length nows) \<le> n"
    and "\<forall>t \<in> set nows. t \<le> f_expires_at frec"
    and "f_password_hash frec = None
         \<or> (\<exists>p. password = Some p \<and> p \<noteq> [] \<and> verifyPassword p (the (f_password_hash frec)))"
    and "downloadFile (f_filename frec) w = Some obj"
    and "fileResponse_accepted (f_original_filename frec) (f_mime_type frec)"
  shows "\<exists>w'. download_seq nows json fileId w =
           (replicate (length nows)
              (fileResponse (body obj) (f_original_filename frec) (f_mime_type frec) (f_size frec)),
            w')
         \<and> getFile fileId w' =
              Some (frec\<lparr>f_download_count := f_download_count frec + int (length nows)\<rparr>)
         \<and> bucket w' = bucket w \<and> text_shares w' = text_shares w"
  using assms
proof (induction nows arbitrary: w frec)
  case Nil
  then show ?case by simp
next
  case (Cons now nows)
  let ?w1 = "incrementDownloadCount fileId w"
  let ?file1 = "frec\<lparr>f_download_count := f_download_count frec + 1\<rparr>"
  have step: "download_post now json fileId w =
           (fileResponse (body obj) (f_original_filename frec) (f_mime_type frec) (f_size frec), ?w1)"
    using Cons.prems by (intro download_post_allow) auto
  have g1: "getFile fileId ?w1 = Some ?file1"
    using Cons.prems(2) by (simp add: getFile_incrementDownloadCount)
  have b1: "downloadFile (f_filename ?file1) ?w1 = Some obj"
    using Cons.prems(7) by (simp add: downloadFile_def incrementDownloadCount_def)
  have a1: "fileResponse_accepted (f_original_filename ?file1) (f_mime_type ?file1)"
    using Cons.prems(8) by simp
  have "\<exists>w'. download_seq nows json fileId ?w1 =
           (replicate (length nows)
              (fileResponse (body obj) (f_original_filename ?file1) (f_mime_type ?file1) (f_size ?file1)),
            w')
         \<and> getFile fileId w' =
              Some (?file1\<lparr>f_download_count := f_download_count ?file1 + int (length nows)\<rparr>)
         \<and> bucket w' = bucket ?w1 \<and> text_shares w' = text_shares ?w1"
    using Cons.prems g1 b1 a1 by (intro Cons.IH) auto
  then obtain w' where w': "download_seq nows json fileId ?w1 =
           (replicate (length nows)
              (fileResponse (body obj) (f_original_filename frec) (f_mime_type frec) (f_size frec)),
            w')"
     "getFile fileId w' = Some (frec\<lparr>f_download_count := f_download_count frec + 1 + int (length nows)\<rparr>)"
     "bucket w' = bucket w" "text_shares w' = text_shares w"
    by (auto simp: incrementDownloadCount_def)
  show ?case
    using step w' by (auto simp: add.assoc add.commute)
qed

lemma text_view_post_allow:
  assumes "passwordSchema json = Some password"
    and "getTextShare textShareId w = Some ts"
    and "t_max_views ts = Some n" and "t_view_count ts < n"
    and "now \<le> t_expires_at ts"
    and "t_password_hash ts = None
         \<or> (\<exists>p. password = Some p \<and> p \<noteq> [] \<and> verifyPassword p (the (t_password_hash ts)))"
  shows "\<exists>view. text_view_post now json textShareId w =
           (successResponse (TextShareInfo view) 200, incrementViewCount textShareId w)
         \<and> ti_content view = t_content ts \<and> ti_view_count view = t_view_count ts + 1"
  using assms
  by (cases "t_password_hash ts")
     (auto simp: text_view_post_def isTextShareAccessible_def isExpired_def Let_def)

lemma text_view_post_limit:
  assumes "passwordSchema json = Some password"
    and "getTextShare textShareId w = Some ts"
    and "t_max_views ts = Some n" and "n \<noteq> 0" and "t_view_count ts \<ge> n"
    and "now \<le> t_expires_at ts"
  shows "text_view_post now json textShareId w =
           (errorResponse VIEW_LIMIT_REACHED (Message ''View limit reached'') 403, w)"
  using assms
  by (auto simp: text_view_post_def isTextShareAccessible_def isExpired_def Let_def)

lemma text_view_seq_counts:
  assumes "passwordSchema json = Some password"
    and "getTextShare textShareId w = Some ts"
    and "t_max_views ts = Some n"
    and "t_view_count ts + int (length nows) \<le> n"
    and "\<forall>t \<in> set nows. t \<le> t_expires_at ts"
    and "t_password_hash ts = None
         \<or> (\<exists>p. password = Some p \<and> p \<noteq> [] \<and> verifyPassword p (the (t_password_hash ts)))"
  shows "\<exists>rs w'. text_view_seq nows json textShareId w = (rs, w')
         \<and> length rs = length nows
         \<and> (\<forall>r \<in> set rs. \<exists>view. r = successResponse (TextShareInfo view) 200
                                  \<and> ti_content view = t_content ts)
         \<and> getTextShare textShareId w' =
              Some (ts\<lparr>t_view_count := t_view_count ts + int (length nows)\<rparr>)
         \<and> bucket w' = bucket w \<and> files w' = files w"
  using assms
proof (induction nows arbitrary: w ts)
  case Nil
  then show ?case by simp
next
  case (Cons now nows)
  let ?w1 = "incrementViewCount textShareId w"
  let ?ts1 = "ts\<lparr>t_view_count := t_view_count ts + 1\<rparr>"
  obtain view where step: "text_view_post now json textShareId w =
           (successResponse (TextShareInfo view) 200, ?w1)" "ti_content view = t_content ts"
    using text_view_post_allow [of json password textShareId w ts n now] Cons.prems by auto
  have g1: "getTextShare textShareId ?w1 = Some ?ts1"
    using Cons.prems(2) by (simp add: getTextShare_incrementViewCount)
  have "\<exists>rs w'. text_view_seq nows json textShareId ?w1 = (rs, w')
         \<and> length rs = length nows
         \<and> (\<forall>r \<in> set rs. \<exists>view. r = successResponse (TextShareInfo view) 200
                                  \<and> ti_content view = t_content ?ts1)
         \<and> getTextShare textShareId w' =
              Some (?ts1\<lparr>t_view_count := t_view_count ?ts1 + int (length nows)\<rparr>)
         \<and> bucket w' = bucket ?w1 \<and> files w' = files ?w1"
    using Cons.prems g1 by (intro Cons.IH) auto
  then obtain rs w' where w': "text_view_seq nows json textShareId ?w1 = (rs, w')"
     "length rs = length nows"
     "\<forall>r \<in> set rs. \<exists>view. r = successResponse (TextShareInfo view) 200
                                  \<and> ti_content view = t_content ts"
     "getTextShare textShareId w' = Some (ts\<lparr>t_view_count := t_view_count ts + 1 + int (length nows)\<rparr>)"
     "bucket w' = bucket w" "files w' = files w"
    by (auto simp: incrementViewCount_def)
  show ?case
    using step w' by (auto simp: add.assoc add.commute)
qed

lemma find_append_fresh:
  "\<forall>x \<in> set xs. \<not> P x \<Longrightarrow> P y \<Longrightarrow> find P (xs @ [y]) = Some y"
  by (induction xs) simp_all

lemma createFile_getFile:
  assumes "createFile rnd now input w = Inr (created, w1)"
  shows "\<exists>row. getFile (f_id created) w1 = Some row
           \<and> f_download_count row = 0
           \<and> f_max_downloads row = or_null_num (cf_max_downloads input)
           \<and> f_password_hash row = or_null_str (cf_password input)
           \<and> f_expires_at row = cf_expires_at input
           \<and> f_filename row = cf_filename input
           \<and> f_original_filename row = cf_original_filename input
           \<and> f_mime_type row = cf_mime_type input
           \<and> f_size row = cf_size input
           \<and> text_shares w1 = text_shares w \<and> bucket w1 = bucket w"
proof -
  let ?i = "generateId 12 rnd"
  from assms have "?i \<notin> f_id ` set (files w)"
    by (simp add: createFile_def Let_def split: if_splits)
  then have fresh: "\<forall>x \<in> set (files w). \<not> (f_id x = ?i \<and> \<not> f_is_deleted x)"
    by (force simp: image_iff)
  from assms obtain row where w1: "w1 = w\<lparr>files := files w @ [row]\<rparr>" "f_id created = ?i"
    and row: "f_id row = ?i" "\<not> f_is_deleted row" "f_download_count row = 0"
      "f_max_downloads row = or_null_num (cf_max_downloads input)"
      "f_password_hash row = or_null_str (cf_password input)"
      "f_expires_at row = cf_expires_at input" "f_filename row = cf_filename input"
      "f_original_filename row = cf_original_filename input"
      "f_mime_type row = cf_mime_type input" "f_size row = cf_size input"
    by (auto simp: createFile_def Let_def split: if_splits)
  have "getFile (f_id created) w1 = Some row"
    using find_append_fresh [OF fresh, of row] row w1 by (simp add: getFile_def)
  with row w1 show ?thesis by simp
qed

lemma createTextShare_getTextShare:
  assumes "createTextShare rnd now input w = Inr (created, w1)"
  shows "\<exists>row. getTextShare (t_id created) w1 = Some row
           \<and> t_view_count row = 0
           \<and> t_max_views row = or_null_num (ct_max_views input)
           \<and> t_password_hash row = or_null_str (ct_password input)
           \<and> t_expires_at row = ct_expires_at input
           \<and> t_content row = ct_content input
           \<and> files w1 = files w \<and> bucket w1 = bucket w"
proof -
  let ?i = "generateId 12 rnd"
  from assms have "?i \<notin> t_id ` set (text_shares w)"
    by (simp add: createTextShare_def Let_def split: if_splits)
  then have fresh: "\<forall>x \<in> set (text_shares w). \<not> (t_id x = ?i \<and> \<not> t_is_deleted x)"
    by (force simp: image_iff)
  from assms obtain row where w1: "w1 = w\<lparr>text_shares := text_shares w @ [row]\<rparr>"
      "t_id created = ?i"
    and row: "t_id row = ?i" "\<not> t_is_deleted row" "t_view_count row = 0"
      "t_max_views row = or_null_num (ct_max_views input)"
      "t_password_hash row = or_null_str (ct_password input)"
      "t_expires_at row = ct_expires_at input" "t_content row = ct_content input"
    by (auto simp: createTextShare_def Let_def split: if_splits)
  have "getTextShare (t_id created) w1 = Some row"
    using find_append_fresh [OF fresh, of row] row w1 by (simp add: getTextShare_def)
  with row w1 show ?thesis by simp
qed

lemma map_of_put: "map_of (put k v kvs) k = Some v"
  by (induction kvs) auto

lemma downloadFile_uploadFile:
  "downloadFile key (uploadFile key data metadata w) =
     Some \<lparr> body = data, customMetadata = (case metadata of None \<Rightarrow> [] | Some m \<Rightarrow> m) \<rparr>"
  by (simp add: downloadFile_def uploadFile_def map_of_put)

lemma getFile_uploadFile: "getFile i (uploadFile key data metadata w) = getFile i w"
  by (simp add: getFile_def uploadFile_def)

lemma verifyPassword_hashPassword: "verifyPassword p (hashPassword p)"
  by (simp add: verifyPassword_def)

text \<open>
  What does hold of the limit. A file record created with limit \<open>n \<ge> 1\<close> whose name and
  mime type \<open>fileResponse\<close> accepts, with its blob stored, and a text share created with
  limit \<open>n \<ge> 1\<close>, redeemed at \<open>n\<close> successive times none of which is past the expiry,
  with the right password if one is set: all \<open>n\<close> redemptions succeed, the counter is then
  \<open>n\<close>, and the next attempt answers \<open>DOWNLOAD_LIMIT_REACHED\<close>
  (\<open>VIEW_LIMIT_REACHED\<close>) and leaves the stores as they are.
\<close>

lemma download_ceiling:
  assumes create: "createFile rnd now0 input w0 = Inr (created, w1)"
    and limit: "cf_max_downloads input = Some n" "1 \<le> n"
    and blob: "w = uploadFile (cf_filename input) data metadata w1"
    and times: "length nows = nat n" "\<forall>t \<in> set nows. t \<le> cf_expires_at input"
      "t' \<le> cf_expires_at input"
    and pw: "passwordSchema json = Some password"
      "cf_password input = None
       \<or> (\<exists>p. password = Some p \<and> p \<noteq> [] \<and> cf_password input = Some (hashPassword p))"
    and legal: "fileResponse_accepted (cf_original_filename input) (cf_mime_type input)"
  shows "\<exists>w'. download_seq nows json (f_id created) w =
            (replicate (nat n) (fileResponse data (cf_original_filename input)
                                  (cf_mime_type input) (cf_size input)), w')
          \<and> map_option f_download_count (getFile (f_id created) w') = Some n
          \<and> download_post t' json (f_id created) w' =
              (errorResponse DOWNLOAD_LIMIT_REACHED (Message ''Download limit reached'') 403, w')"
proof -
  from createFile_getFile [OF create] obtain row where
    row: "getFile (f_id created) w1 = Some row" "f_download_count row = 0"
      "f_max_downloads row = or_null_num (cf_max_downloads input)"
      "f_password_hash row = or_null_str (cf_password input)"
      "f_expires_at row = cf_expires_at input" "f_filename row = cf_filename input"
      "f_original_filename row = cf_original_filename input"
      "f_mime_type row = cf_mime_type input" "f_size row = cf_size input"
    by blast
  let ?obj = "\<lparr> body = data, customMetadata = (case metadata of None \<Rightarrow> [] | Some m \<Rightarrow> m) \<rparr>"
  have g: "getFile (f_id created) w = Some row"
    using row(1) blob by (simp add: getFile_uploadFile)
  have m: "f_max_downloads row = Some n"
    using row(3) limit by (simp add: or_null_num_def)
  have h: "f_password_hash row = None
         \<or> (\<exists>p. password = Some p \<and> p \<noteq> [] \<and> verifyPassword p (the (f_password_hash row)))"
    using pw(2) row(4)
    by (auto simp: or_null_str_def hashPassword_not_Nil verifyPassword_hashPassword)
  have b: "downloadFile (f_filename row) w = Some ?obj"
    using row(6) blob by (simp add: downloadFile_uploadFile)
  have c: "f_download_count row + int (length nows) \<le> n"
    using row(2) times(1) limit(2) by simp
  have l: "fileResponse_accepted (f_original_filename row) (f_mime_type row)"
    using legal row(7) row(8) by simp
  from download_seq_counts [OF pw(1) g m c _ h b l] times(2) row(5)
  obtain w' where w': "download_seq nows json (f_id created) w =
           (replicate (length nows)
              (fileResponse (body ?obj) (f_original_filename row) (f_mime_type row) (f_size row)), w')"
    "getFile (f_id created) w' = Some (row\<lparr>f_download_count := f_download_count row + int (length nows)\<rparr>)"
    by auto
  have cnt: "f_download_count row + int (length nows) = n"
    using row(2) times(1) limit(2) by simp
  have "download_post t' json (f_id created) w' =
          (errorResponse DOWNLOAD_LIMIT_REACHED (Message ''Download limit reached'') 403, w')"
    using m limit(2) cnt times(3) row(5)
    by (intro download_post_limit [OF pw(1) w'(2), where n = n]) simp_all
  with w' cnt times(1) row show ?thesis by auto
qed

lemma text_view_ceiling:
  assumes create: "createTextShare rnd now0 input w0 = Inr (created, w)"
    and limit: "ct_max_views input = Some n" "1 \<le> n"
    and times: "length nows = nat n" "\<forall>t \<in> set nows. t \<le> ct_expires_at input"
      "t' \<le> ct_expires_at input"
    and pw: "passwordSchema json = Some password"
      "ct_password input = None
       \<or> (\<exists>p. password = Some p \<and> p \<noteq> [] \<and> ct_password input = Some (hashPassword p))"
  shows "\<exists>rs w'. text_view_seq nows json (t_id created) w = (rs, w')
          \<and> length rs = nat n
          \<and> (\<forall>r \<in> set rs. \<exists>view. r = successResponse (TextShareInfo view) 200
                                   \<and> ti_content view = ct_content input)
          \<and> map_option t_view_count (getTextShare (t_id created) w') = Some n
          \<and> text_view_post t' json (t_id created) w' =
              (errorResponse VIEW_LIMIT_REACHED (Message ''View limit reached'') 403, w')"
proof -
  from createTextShare_getTextShare [OF create] obtain row where
    row: "getTextShare (t_id created) w = Some row" "t_view_count row = 0"
      "t_max_views row = or_null_num (ct_max_views input)"
      "t_password_hash row = or_null_str (ct_password input)"
      "t_expires_at row = ct_expires_at input" "t_content row = ct_content input"
    by blast
  have m: "t_max_views row = Some n"
    using row(3) limit by (simp add: or_null_num_def)
  have h: "t_password_hash row = None
         \<or> (\<exists>p. password = Some p \<and> p \<noteq> [] \<and> verifyPassword p (the (t_password_hash row)))"
    using pw(2) row(4)
    by (auto simp: or_null_str_def hashPassword_not_Nil verifyPassword_hashPassword)
  have c: "t_view_count row + int (length nows) \<le> n"
    using row(2) times(1) limit(2) by simp
  from text_view_seq_counts [OF pw(1) row(1) m c _ h] times(2) row(5)
  obtain rs w' where w': "text_view_seq nows json (t_id created) w = (rs, w')"
    "length rs = length nows"
    "\<forall>r \<in> set rs. \<exists>view. r = successResponse (TextShareInfo view) 200
                                  \<and> ti_content view = t_content row"
    "getTextShare (t_id created) w' = Some (row\<lparr>t_view_count := t_view_count row + int (length nows)\<rparr>)"
    by auto
  have cnt: "t_view_count row + int (length nows) = n"
    using row(2) times(1) limit(2) by simp
  have "text_view_post t' json (t_id created) w' =
          (errorResponse VIEW_LIMIT_REACHED (Message ''View limit reached'') 403, w')"
    using m limit(2) cnt times(3) row(5)
    by (intro text_view_post_limit [OF pw(1) w'(4), where n = n]) simp_all
  with w' cnt times(1) row show ?thesis by auto
qed


subsection \<open>Soft deletion and the expiry sweep\<close>

lemma cleanupOrphanedFiles_loop_tables:
  "files (snd (cleanupOrphanedFiles_loop v objs n w)) = files w
   \<and> text_shares (snd (cleanupOrphanedFiles_loop v objs n w)) = text_shares w"
  by (induction objs arbitrary: n w) (simp_all add: Let_def storage_deleteFile_def)

lemma cleanupOrphanedFiles_tables:
  "files (snd (cleanupOrphanedFiles v w)) = files w"
  "text_shares (snd (cleanupOrphanedFiles v w)) = text_shares w"
  by (simp_all add: cleanupOrphanedFiles_def cleanupOrphanedFiles_loop_tables)

lemma file_hidden_map:
  assumes "file_hidden ident w"
    and "\<And>r. f_id (g r) = f_id r" and "\<And>r. f_is_deleted r \<Longrightarrow> f_is_deleted (g r)"
  shows "file_hidden ident (w\<lparr>files := map g (files w)\<rparr>)"
  using assms by (auto simp: file_hidden_def list_all_iff image_iff)

lemma text_hidden_map:
  assumes "text_hidden ident w"
    and "\<And>r. t_id (g r) = t_id r" and "\<And>r. t_is_deleted r \<Longrightarrow> t_is_deleted (g r)"
  shows "text_hidden ident (w\<lparr>text_shares := map g (text_shares w)\<rparr>)"
  using assms by (auto simp: text_hidden_def list_all_iff image_iff)

lemma file_hidden_createFile:
  assumes "file_hidden ident w" and "createFile rnd now input w = Inr (created, w')"
  shows "file_hidden ident w'"
proof -
  from assms(2) obtain row where "files w' = files w @ [row]" "f_id row \<notin> set (map f_id (files w))"
    by (auto simp: createFile_def Let_def split: if_splits)
  with assms(1) show ?thesis
    by (auto simp: file_hidden_def list_all_iff)
qed

lemma text_hidden_createTextShare:
  assumes "text_hidden ident w" and "createTextShare rnd now input w = Inr (created, w')"
  shows "text_hidden ident w'"
proof -
  from assms(2) obtain row where "text_shares w' = text_shares w @ [row]"
      "t_id row \<notin> set (map t_id (text_shares w))"
    by (auto simp: createTextShare_def Let_def split: if_splits)
  with assms(1) show ?thesis
    by (auto simp: text_hidden_def list_all_iff)
qed

lemma createFile_text_shares:
  "createFile rnd now input w = Inr (created, w') \<Longrightarrow> text_shares w' = text_shares w"
  by (auto simp: createFile_def Let_def split: if_splits)

lemma createTextShare_files:
  "createTextShare rnd now input w = Inr (created, w') \<Longrightarrow> files w' = files w"
  by (auto simp: createTextShare_def Let_def split: if_splits)

lemma file_hidden_apply_op: "file_hidden ident w \<Longrightarrow> file_hidden ident (apply_op op w)"
proof (cases op)
  case (OpCreateFile rnd now input)
  then show "file_hidden ident w \<Longrightarrow> file_hidden ident (apply_op op w)"
    by (auto split: sum.splits dest: file_hidden_createFile)
next
  case (OpIncrementDownloadCount i)
  then show "file_hidden ident w \<Longrightarrow> file_hidden ident (apply_op op w)"
    by (simp add: incrementDownloadCount_def file_hidden_map)
next
  case (OpDeleteFile i)
  then show "file_hidden ident w \<Longrightarrow> file_hidden ident (apply_op op w)"
    by (simp add: deleteFile_def file_hidden_map)
next
  case (OpCreateTextShare rnd now input)
  then show "file_hidden ident w \<Longrightarrow> file_hidden ident (apply_op op w)"
    by (auto split: sum.splits dest: createTextShare_files simp: file_hidden_def)
next
  case (OpIncrementViewCount i)
  then show "file_hidden ident w \<Longrightarrow> file_hidden ident (apply_op op w)"
    by (simp add: incrementViewCount_def file_hidden_def)
next
  case (OpDeleteTextShare i)
  then show "file_hidden ident w \<Longrightarrow> file_hidden ident (apply_op op w)"
    by (simp add: deleteTextShare_def file_hidden_def)
next
  case (OpCleanupExpiredFiles now)
  then show "file_hidden ident w \<Longrightarrow> file_hidden ident (apply_op op w)"
    by (simp add: cleanupExpiredFiles_def Let_def file_hidden_map)
next
  case (OpCleanupExpiredTextShares now)
  then show "file_hidden ident w \<Longrightarrow> file_hidden ident (apply_op op w)"
    by (simp add: cleanupExpiredTextShares_def Let_def file_hidden_def)
next
  case (OpUploadFile key data metadata)
  then show "file_hidden ident w \<Longrightarrow> file_hidden ident (apply_op op w)"
    by (simp add: uploadFile_def file_hidden_def)
next
  case (OpStorageDeleteFile key)
  then show "file_hidden ident w \<Longrightarrow> file_hidden ident (apply_op op w)"
    by (simp add: storage_deleteFile_def file_hidden_def)
next
  case (OpCleanupOrphanedFiles v)
  then show "file_hidden ident w \<Longrightarrow> file_hidden ident (apply_op op w)"
    by (simp add: cleanupOrphanedFiles_tables file_hidden_def)
qed

lemma text_hidden_apply_op: "text_hidden ident w \<Longrightarrow> text_hidden ident (apply_op op w)"
proof (cases op)
  case (OpCreateFile rnd now input)
  then show "text_hidden ident w \<Longrightarrow> text_hidden ident (apply_op op w)"
    by (auto split: sum.splits dest: createFile_text_shares simp: text_hidden_def)
next
  case (OpIncrementDownloadCount i)
  then show "text_hidden ident w \<Longrightarrow> text_hidden ident (apply_op op w)"
    by (simp add: incrementDownloadCount_def text_hidden_def)
next
  case (OpDeleteFile i)
  then show "text_hidden ident w \<Longrightarrow> text_hidden ident (apply_op op w)"
    by (simp add: deleteFile_def text_hidden_def)
next
  case (OpCreateTextShare rnd now input)
  then show "text_hidden ident w \<Longrightarrow> text_hidden ident (apply_op op w)"
    by (auto split: sum.splits dest: text_hidden_createTextShare)
next
  case (OpIncrementViewCount i)
  then show "text_hidden ident w \<Longrightarrow> text_hidden ident (apply_op op w)"
    by (simp add: incrementViewCount_def text_hidden_map)
next
  case (OpDeleteTextShare i)
  then show "text_hidden ident w \<Longrightarrow> text_hidden ident (apply_op op w)"
    by (simp add: deleteTextShare_def text_hidden_map)
next
  case (OpCleanupExpiredFiles now)
  then show "text_hidden ident w \<Longrightarrow> text_hidden ident (apply_op op w)"
    by (simp add: cleanupExpiredFiles_def Let_def text_hidden_def)
next
  case (OpCleanupExpiredTextShares now)
  then show "text_hidden ident w \<Longrightarrow> text_hidden ident (apply_op op w)"
    by (simp add: cleanupExpiredTextShares_def Let_def text_hidden_map)
next
  case (OpUploadFile key data metadata)
  then show "text_hidden ident w \<Longrightarrow> text_hidden ident (apply_op op w)"
    by (simp add: uploadFile_def text_hidden_def)
next
  case (OpStorageDeleteFile key)
  then show "text_hidden ident w \<Longrightarrow> text_hidden ident (apply_op op w)"
    by (simp add: storage_deleteFile_def text_hidden_def)
next
  case (OpCleanupOrphanedFiles v)
  then show "text_hidden ident w \<Longrightarrow> text_hidden ident (apply_op op w)"
    by (simp add: cleanupOrphanedFiles_tables text_hidden_def)
qed

lemma file_hidden_fold: "file_hidden ident w \<Longrightarrow> file_hidden ident (fold apply_op ops w)"
  by (induction ops arbitrary: w) (simp_all add: file_hidden_apply_op)

lemma text_hidden_fold: "text_hidden ident w \<Longrightarrow> text_hidden ident (fold apply_op ops w)"
  by (induction ops arbitrary: w) (simp_all add: text_hidden_apply_op)

lemma find_none: "(\<And>x. x \<in> set xs \<Longrightarrow> \<not> P x) \<Longrightarrow> find P xs = None"
  by (induction xs) simp_all

lemma file_hidden_getFile: "file_hidden ident w \<Longrightarrow> getFile ident w = None"
  unfolding getFile_def file_hidden_def list_all_iff
  by (rule find_none) blast

lemma text_hidden_getTextShare: "text_hidden ident w \<Longrightarrow> getTextShare ident w = None"
  unfolding getTextShare_def text_hidden_def list_all_iff
  by (rule find_none) blast

lemma find_map_none: "(\<And>r. \<not> P (g r)) \<Longrightarrow> find P (map g xs) = None"
  by (induction xs) simp_all

lemma getFile_deleteFile: "getFile ident (deleteFile ident w) = None"
  by (simp add: getFile_def deleteFile_def find_map_none)

lemma getTextShare_deleteTextShare: "getTextShare ident (deleteTextShare ident w) = None"
  by (simp add: getTextShare_def deleteTextShare_def find_map_none)

lemma file_hidden_deleteFile:
  "ident \<in> set (map f_id (files w)) \<Longrightarrow> file_hidden ident (deleteFile ident w)"
  by (auto simp: file_hidden_def deleteFile_def list_all_iff image_iff)

lemma text_hidden_deleteTextShare:
  "ident \<in> set (map t_id (text_shares w)) \<Longrightarrow> text_hidden ident (deleteTextShare ident w)"
  by (auto simp: text_hidden_def deleteTextShare_def list_all_iff image_iff)

lemma filter_marked:
  assumes "\<And>r. \<not> hit (mark r)"
  shows "filter hit (map (\<lambda>r. if hit r then mark r else r) xs) = []"
  using assms by (induction xs) simp_all

lemma map_marked:
  assumes "\<And>r. \<not> hit (mark r)"
  shows "map (\<lambda>r. if hit r then mark r else r) (map (\<lambda>r. if hit r then mark r else r) xs)
         = map (\<lambda>r. if hit r then mark r else r) xs"
  using assms by (induction xs) simp_all

lemma cleanupExpiredFiles_twice:
  "cleanupExpiredFiles now (snd (cleanupExpiredFiles now w)) = (0, snd (cleanupExpiredFiles now w))"
proof -
  let ?hit = "\<lambda>r. f_expires_at r < now \<and> \<not> f_is_deleted r"
  let ?mark = "\<lambda>r. r\<lparr>f_is_deleted := True\<rparr>"
  have m: "\<not> ?hit (?mark r)" for r by simp
  show ?thesis
    unfolding cleanupExpiredFiles_def Let_def
    using filter_marked [of ?hit ?mark "files w", OF m] map_marked [of ?hit ?mark "files w", OF m]
    by simp
qed

lemma cleanupExpiredTextShares_twice:
  "cleanupExpiredTextShares now (snd (cleanupExpiredTextShares now w)) =
     (0, snd (cleanupExpiredTextShares now w))"
proof -
  let ?hit = "\<lambda>r. t_expires_at r < now \<and> \<not> t_is_deleted r"
  let ?mark = "\<lambda>r. r\<lparr>t_is_deleted := True\<rparr>"
  have m: "\<not> ?hit (?mark r)" for r by simp
  show ?thesis
    unfolding cleanupExpiredTextShares_def Let_def
    using filter_marked [of ?hit ?mark "text_shares w", OF m]
      map_marked [of ?hit ?mark "text_shares w", OF m]
    by simp
qed

text \<open>
  Claim C7. Right after \<open>deleteFile\<close> (\<open>deleteTextShare\<close>) the lookup of the id
  returns nothing, whatever the expiry, the counters and the password hash of the row are;
  and when the id is the id of a record, the lookup still returns nothing after any
  further sequence of store operations, since no operation clears \<open>is_deleted\<close> and the
  primary key keeps the id from being inserted again. Running \<open>cleanupExpiredFiles\<close>
  (\<open>cleanupExpiredTextShares\<close>) a second time with the same time reports 0 changed rows
  and leaves the stores as the first run left them.
\<close>

theorem soft_delete_hides_and_sweep_idempotent:
  "getFile ident (deleteFile ident w) = None
   \<and> getTextShare ident (deleteTextShare ident w) = None
   \<and> (ident \<in> set (map f_id (files w)) \<longrightarrow>
        getFile ident (fold apply_op ops (deleteFile ident w)) = None)
   \<and> (ident \<in> set (map t_id (text_shares w)) \<longrightarrow>
        getTextShare ident (fold apply_op ops (deleteTextShare ident w)) = None)
   \<and> cleanupExpiredFiles now (snd (cleanupExpiredFiles now w)) =
        (0, snd (cleanupExpiredFiles now w))
   \<and> cleanupExpiredTextShares now (snd (cleanupExpiredTextShares now w)) =
        (0, snd (cleanupExpiredTextShares now w))"
proof (intro conjI impI)
  show "getFile ident (deleteFile ident w) = None"
    by (rule getFile_deleteFile)
  show "getTextShare ident (deleteTextShare ident w) = None"
    by (rule getTextShare_deleteTextShare)
  show "getFile ident (fold apply_op ops (deleteFile ident w)) = None"
    if "ident \<in> set (map f_id (files w))"
    by (intro file_hidden_getFile file_hidden_fold file_hidden_deleteFile that)
  show "getTextShare ident (fold apply_op ops (deleteTextShare ident w)) = None"
    if "ident \<in> set (map t_id (text_shares w))"
    by (intro text_hidden_getTextShare text_hidden_fold text_hidden_deleteTextShare that)
  show "cleanupExpiredFiles now (snd (cleanupExpiredFiles now w)) =
        (0, snd (cleanupExpiredFiles now w))"
    by (rule cleanupExpiredFiles_twice)
  show "cleanupExpiredTextShares now (snd (cleanupExpiredTextShares now w)) =
        (0, snd (cleanupExpiredTextShares now w))"
    by (rule cleanupExpiredTextShares_twice)
qed

subsection \<open>Stored rows\<close>

lemma or_null_num_ok: "or_null_num x \<noteq> Some 0"
  by (cases x) (simp_all add: or_null_num_def)

lemma or_null_str_ok: "or_null_str x \<noteq> Some []"
  by (cases x) (simp_all add: or_null_str_def)

lemma stored_rows_ok_createFile:
  assumes "stored_rows_ok w" and "createFile rnd now input w = Inr (created, w')"
  shows "stored_rows_ok w'"
proof -
  from assms(2) obtain row where "files w' = files w @ [row]" "text_shares w' = text_shares w"
    "f_max_downloads row = or_null_num (cf_max_downloads input)"
    "f_password_hash row = or_null_str (cf_password input)"
    by (auto simp: createFile_def Let_def split: if_splits)
  with assms(1) show ?thesis
    by (simp add: stored_rows_ok_def or_null_num_ok or_null_str_ok)
qed

lemma stored_rows_ok_createTextShare:
  assumes "stored_rows_ok w" and "createTextShare rnd now input w = Inr (created, w')"
  shows "stored_rows_ok w'"
proof -
  from assms(2) obtain row where "text_shares w' = text_shares w @ [row]" "files w' = files w"
    "t_max_views row = or_null_num (ct_max_views input)"
    "t_password_hash row = or_null_str (ct_password input)"
    by (auto simp: createTextShare_def Let_def split: if_splits)
  with assms(1) show ?thesis
    by (simp add: stored_rows_ok_def or_null_num_ok or_null_str_ok)
qed

lemma list_all_map_keep:
  "list_all P xs \<Longrightarrow> (\<And>r. P r \<Longrightarrow> P (g r)) \<Longrightarrow> list_all P (map g xs)"
  by (induction xs) simp_all

lemma stored_rows_ok_apply_op: "stored_rows_ok w \<Longrightarrow> stored_rows_ok (apply_op op w)"
proof (cases op)
  case (OpCreateFile rnd now input)
  then show "stored_rows_ok w \<Longrightarrow> stored_rows_ok (apply_op op w)"
    by (auto split: sum.splits dest: stored_rows_ok_createFile)
next
  case (OpIncrementDownloadCount i)
  then show "stored_rows_ok w \<Longrightarrow> stored_rows_ok (apply_op op w)"
    by (simp add: incrementDownloadCount_def stored_rows_ok_def list_all_map_keep)
next
  case (OpDeleteFile i)
  then show "stored_rows_ok w \<Longrightarrow> stored_rows_ok (apply_op op w)"
    by (simp add: deleteFile_def stored_rows_ok_def list_all_map_keep)
next
  case (OpCreateTextShare rnd now input)
  then show "stored_rows_ok w \<Longrightarrow> stored_rows_ok (apply_op op w)"
    by (auto split: sum.splits dest: stored_rows_ok_createTextShare)
next
  case (OpIncrementViewCount i)
  then show "stored_rows_ok w \<Longrightarrow> stored_rows_ok (apply_op op w)"
    by (simp add: incrementViewCount_def stored_rows_ok_def list_all_map_keep)
next
  case (OpDeleteTextShare i)
  then show "stored_rows_ok w \<Longrightarrow> stored_rows_ok (apply_op op w)"
    by (simp add: deleteTextShare_def stored_rows_ok_def list_all_map_keep)
next
  case (OpCleanupExpiredFiles now)
  then show "stored_rows_ok w \<Longrightarrow> stored_rows_ok (apply_op op w)"
    by (simp add: cleanupExpiredFiles_def Let_def stored_rows_ok_def list_all_map_keep)
next
  case (OpCleanupExpiredTextShares now)
  then show "stored_rows_ok w \<Longrightarrow> stored_rows_ok (apply_op op w)"
    by (simp add: cleanupExpiredTextShares_def Let_def stored_rows_ok_def list_all_map_keep)
next
  case (OpUploadFile key data metadata)
  then show "stored_rows_ok w \<Longrightarrow> stored_rows_ok (apply_op op w)"
    by (simp add: uploadFile_def stored_rows_ok_def)
next
  case (OpStorageDeleteFile key)
  then show "stored_rows_ok w \<Longrightarrow> stored_rows_ok (apply_op op w)"
    by (simp add: storage_deleteFile_def stored_rows_ok_def)
next
  case (OpCleanupOrphanedFiles v)
  then show "stored_rows_ok w \<Longrightarrow> stored_rows_ok (apply_op op w)"
    by (simp add: cleanupOrphanedFiles_tables stored_rows_ok_def)
qed

lemma stored_rows_well_formed: "stored_rows_ok (fold apply_op ops empty_world)"
proof -
  have "stored_rows_ok w \<Longrightarrow> stored_rows_ok (fold apply_op ops w)" for w
    by (induction ops arbitrary: w) (simp_all add: stored_rows_ok_apply_op)
  moreover have "stored_rows_ok empty_world"
    by (simp add: stored_rows_ok_def empty_world_def)
  ultimately show ?thesis by blast
qed

lemma find_Some_holds: "find P xs = Some x \<Longrightarrow> list_all Q xs \<Longrightarrow> Q x"
  by (induction xs) (auto split: if_splits)

lemma stored_rows_ok_getFile:
  "stored_rows_ok w \<Longrightarrow> getFile ident w = Some r \<Longrightarrow>
     f_max_downloads r \<noteq> Some 0 \<and> f_password_hash r \<noteq> Some []"
  unfolding stored_rows_ok_def getFile_def
  by (drule conjunct1) (drule (1) find_Some_holds, simp)

lemma stored_rows_ok_getTextShare:
  "stored_rows_ok w \<Longrightarrow> getTextShare ident w = Some r \<Longrightarrow>
     t_max_views r \<noteq> Some 0 \<and> t_password_hash r \<noteq> Some []"
  unfolding stored_rows_ok_def getTextShare_def
  by (drule conjunct2) (drule (1) find_Some_holds, simp)

subsection \<open>Evaluation on the uploaded file and the guarded records\<close>

lemma uploaded_world_eq:
  "uploaded_world =
     \<lparr> files =
         [\<lparr> f_id = ''BBBBBBBBBBBB'', f_filename = ''AAAAAAAAAAAAAAAA.txt'',
            f_original_filename = ''notes.txt'', f_mime_type = ''text/plain'', f_size = 2,
            f_upload_ip = Some ''203.0.113.7'', f_created_at = 0, f_expires_at = 86400000,
            f_download_count = 0, f_max_downloads = None, f_password_hash = None,
            f_is_deleted = False \<rparr>],
       text_shares = [],
       bucket =
         [(''AAAAAAAAAAAAAAAA.txt'',
           \<lparr> body = [0x68, 0x69],
             customMetadata = [(''original-filename'', ''notes.txt''),
                               (''mime-type'', ''text/plain''),
                               (''upload-ip'', ''203.0.113.7''),
                               (''file-id'', ''BBBBBBBBBBBB'')] \<rparr>),
          (''ZZZZZZZZZZZZZZZZ.bin'', \<lparr> body = [0x00], customMetadata = [] \<rparr>)] \<rparr>"
  by code_simp

theorem soft_delete_hides_and_sweep_idempotent_witness:
  "''BBBBBBBBBBBB'' \<in> set (map f_id (files guarded_world))
   \<and> getFile ''BBBBBBBBBBBB''
        (fold apply_op [OpIncrementDownloadCount ''BBBBBBBBBBBB'', OpCleanupExpiredFiles 5,
                        OpCreateFile (\<lambda>i. 1) 7 limited_input]
           (deleteFile ''BBBBBBBBBBBB'' guarded_world)) = None
   \<and> ''CCCCCCCCCCCC'' \<in> set (map t_id (text_shares guarded_world))
   \<and> getTextShare ''CCCCCCCCCCCC''
        (fold apply_op [OpIncrementViewCount ''CCCCCCCCCCCC'', OpCleanupExpiredTextShares 5]
           (deleteTextShare ''CCCCCCCCCCCC'' guarded_world)) = None
   \<and> fst (cleanupExpiredFiles 90000000 guarded_world) = 1
   \<and> fst (cleanupExpiredFiles 90000000 (snd (cleanupExpiredFiles 90000000 guarded_world))) = 0"
proof -
  have a: "''BBBBBBBBBBBB'' \<in> set (map f_id (files guarded_world))"
    "''CCCCCCCCCCCC'' \<in> set (map t_id (text_shares guarded_world))"
    "fst (cleanupExpiredFiles 90000000 guarded_world) = 1"
    by (simp_all add: guarded_world_def cleanupExpiredFiles_def)
  show ?thesis
    using soft_delete_hides_and_sweep_idempotent [of "''BBBBBBBBBBBB''" guarded_world
        "[OpIncrementDownloadCount ''BBBBBBBBBBBB'', OpCleanupExpiredFiles 5,
          OpCreateFile (\<lambda>i. 1) 7 limited_input]" 90000000]
      soft_delete_hides_and_sweep_idempotent [of "''CCCCCCCCCCCC''" guarded_world
        "[OpIncrementViewCount ''CCCCCCCCCCCC'', OpCleanupExpiredTextShares 5]" 90000000] a
    by simp
qed

subsection \<open>Validation at creation\<close>

lemma isValidFileSize_0: "\<not> isValidFileSize 0 maxSize"
  by (cases maxSize) simp_all

text \<open>
  Claim C10. \<open>isValidFileSize\<close> is false for the size 0 whatever the maximum is, and an
  upload whose file has no bytes is answered with status 400, by the schema check or by the
  size check (\<open>FILE_TOO_LARGE\<close>), with the stores unchanged: no record is created and no
  blob is written.
\<close>

theorem upload_rejects_empty_file:
  "\<not> isValidFileSize 0 maxSize
   \<and> (form_file form = Some file \<and> file_content file = [] \<longrightarrow>
        upload_post env request r1 r2 n1 n2 (Some form) w =
          (errorResponse VALIDATION_ERROR InvalidRequestParametersWith 400, w)
        \<or> upload_post env request r1 r2 n1 n2 (Some form) w =
          (errorResponse FILE_TOO_LARGE (FileSizeExceeds (MAX_FILE_SIZE env)) 400, w))"
  by (simp add: upload_post_def Let_def file_size_def isValidFileSize_0)

theorem upload_rejects_empty_file_witness:
  "upload_post example_env example_request (\<lambda>i. 0) (\<lambda>i. 1) 0 0 (Some empty_file_form) empty_world =
     (errorResponse FILE_TOO_LARGE (FileSizeExceeds (Num 104857600)) 400, empty_world)"
proof -
  have a: "form_file empty_file_form =
             Some \<lparr> file_name = ''empty.txt'', file_type = ''text/plain'', file_content = [] \<rparr>"
    by (simp add: empty_file_form_def example_form_def)
  have b: "uploadFileSchema 24 None None"
    by (simp add: uploadFileSchema_def)
  have c: "upload_post example_env example_request (\<lambda>i. 0) (\<lambda>i. 1) 0 0 (Some empty_file_form) empty_world
           \<noteq> (errorResponse VALIDATION_ERROR InvalidRequestParametersWith 400, empty_world)"
    by (simp add: upload_post_def Let_def empty_file_form_def example_form_def b file_size_def
        example_env_def errorResponse_def)
  show ?thesis
    using upload_rejects_empty_file [of _ empty_file_form
        "\<lparr> file_name = ''empty.txt'', file_type = ''text/plain'', file_content = [] \<rparr>"
        example_env example_request "\<lambda>i. 0" "\<lambda>i. 1" 0 0 empty_world] a c
    by (simp add: example_env_def)
qed

text \<open>
  What the handlers do reject before anything is created: an upload whose file size is not
  in \<open>(0, MAX_FILE_SIZE]\<close>, whose mime type is not in the allow-list, or whose expiry field
  is a non-zero number outside \<open>[1, MAX_EXPIRY_HOURS]\<close>, and a text share whose
  \<open>expiry_hours\<close> is a number outside \<open>[1, MAX_EXPIRY_HOURS]\<close>, are answered with status
  400 and leave the stores unchanged.
\<close>

lemma upload_post_rejects:
  assumes "form_file form = Some file"
    and "\<not> isValidFileSize (file_size file) (MAX_FILE_SIZE env)
         \<or> \<not> isAllowedFileType (file_type file)
         \<or> (\<exists>h. form_expiry_hours form = Numeric h \<and> h \<noteq> 0
                \<and> \<not> isValidExpiryHours h (MAX_EXPIRY_HOURS env))"
  shows "\<exists>msg. upload_post env request r1 r2 n1 n2 (Some form) w = (errorBody msg 400, w)"
  using assms
  by (auto simp: upload_post_def Let_def errorResponse_def)

lemma createTextShareSchema_expiry:
  "createTextShareSchema b = Some req \<Longrightarrow> cb_expiry_hours b = Some (JNum h) \<Longrightarrow>
     cr_expiry_hours req = h"
  by (auto simp: createTextShareSchema_def split: option.splits if_splits)

lemma text_create_rejects:
  assumes "cb_expiry_hours b = Some (JNum h)"
    and "\<not> isValidExpiryHours h (MAX_EXPIRY_HOURS env)"
  shows "\<exists>msg. text_create env request r n1 n2 (Object b) w = (errorBody msg 400, w)"
proof (cases "createTextShareSchema b")
  case None
  then show ?thesis by (simp add: text_create_def errorResponse_def)
next
  case (Some req)
  with assms createTextShareSchema_expiry [OF Some assms(1)] show ?thesis
    by (simp add: text_create_def Let_def errorResponse_def)
qed

text \<open>
  Claim C9. An upload whose expiry field is \<open>0\<close>, outside the permitted range of 1 to
  168 hours, is not rejected: \<open>Number(formData.get('expiry_hours')) || 24\<close> turns the
  \<open>0\<close> into the default 24 before any check sees it, and the upload answers 201 with a
  record that expires after 24 hours and a blob written. The same \<open>expiry_hours\<close> in a text
  share is rejected by its schema, with the stores unchanged.
\<close>

theorem upload_zero_expiry_accepted:
  "\<not> isValidExpiryHours 0 (MAX_EXPIRY_HOURS example_env)
   \<and> form_expiry_hours zero_expiry_form = Numeric 0
   \<and> fst (upload_post example_env example_request (\<lambda>i. 0) (\<lambda>i. 1) 0 0 (Some zero_expiry_form)
            empty_world) =
       successResponse
         (Upload \<lparr> ur_id = ''BBBBBBBBBBBB'', ur_filename = ''notes.txt'', ur_size = 2,
                   ur_expires_at = 86400000,
                   ur_download_url = ''https://worker.example/api/download/BBBBBBBBBBBB'',
                   ur_has_password = False \<rparr>) 201
   \<and> map f_id (files (snd (upload_post example_env example_request (\<lambda>i. 0) (\<lambda>i. 1) 0 0
                              (Some zero_expiry_form) empty_world))) = [''BBBBBBBBBBBB'']
   \<and> map fst (bucket (snd (upload_post example_env example_request (\<lambda>i. 0) (\<lambda>i. 1) 0 0
                              (Some zero_expiry_form) empty_world))) = [''AAAAAAAAAAAAAAAA.txt'']
   \<and> text_create example_env example_request (\<lambda>i. 1) 0 0 (Object zero_expiry_body) empty_world =
       (errorResponse VALIDATION_ERROR (Message ''Invalid request parameters'') 400, empty_world)"
proof -
  have "createTextShareSchema zero_expiry_body = None"
    by (simp add: createTextShareSchema_def zero_expiry_body_def example_text_body_def)
  then have t: "text_create example_env example_request (\<lambda>i. 1) 0 0 (Object zero_expiry_body)
                  empty_world =
       (errorResponse VALIDATION_ERROR (Message ''Invalid request parameters'') 400, empty_world)"
    by (simp add: text_create_def)
  have u: "\<not> isValidExpiryHours 0 (MAX_EXPIRY_HOURS example_env)
   \<and> form_expiry_hours zero_expiry_form = Numeric 0
   \<and> fst (upload_post example_env example_request (\<lambda>i. 0) (\<lambda>i. 1) 0 0 (Some zero_expiry_form)
            empty_world) =
       successResponse
         (Upload \<lparr> ur_id = ''BBBBBBBBBBBB'', ur_filename = ''notes.txt'', ur_size = 2,
                   ur_expires_at = 86400000,
                   ur_download_url = ''https://worker.example/api/download/BBBBBBBBBBBB'',
                   ur_has_password = False \<rparr>) 201
   \<and> map f_id (files (snd (upload_post example_env example_request (\<lambda>i. 0) (\<lambda>i. 1) 0 0
                              (Some zero_expiry_form) empty_world))) = [''BBBBBBBBBBBB'']
   \<and> map fst (bucket (snd (upload_post example_env example_request (\<lambda>i. 0) (\<lambda>i. 1) 0 0
                              (Some zero_expiry_form) empty_world))) = [''AAAAAAAAAAAAAAAA.txt'']"
    by code_simp
  from u t show ?thesis by blast
qed

end
